theory Spec2Isabelle
  imports Complex_Main "HOL-Library.Sublist"
begin

section \<open>Strings\<close>

text \<open>
  JavaScript strings are modelled as \<^typ>\<open>string\<close>. \<open>String.prototype.includes\<close>
  tests whether the argument occurs as a contiguous substring of the receiver.
\<close>

fun startsWith :: "string \<Rightarrow> string \<Rightarrow> bool" where
  "startsWith s [] = True"
| "startsWith [] (p # ps) = False"
| "startsWith (c # cs) (p # ps) = (c = p \<and> startsWith cs ps)"

fun includes_str :: "string \<Rightarrow> string \<Rightarrow> bool" where
  "includes_str [] p = (p = [])"
| "includes_str (c # cs) p = (startsWith (c # cs) p \<or> includes_str cs p)"

text \<open>
  A \<^typ>\<open>string\<close> holds the UTF-8 bytes of the JavaScript string. All characters that the
  program's patterns and literals name are ASCII, except the second verification marker of
  the page scrape and the non-ASCII white space of \<open>\s\<close> and \<open>parseInt\<close>, which are
  written as their UTF-8 byte sequences.
\<close>

definition code :: "char \<Rightarrow> nat" where
  "code c = of_char c"

text \<open>The ranges \<open>a-z\<close>, \<open>A-Z\<close> and \<open>0-9\<close> of the patterns, written out.\<close>

definition lower_case :: string where
  "lower_case = ''abcdefghijklmnopqrstuvwxyz''"

definition upper_case :: string where
  "upper_case = ''ABCDEFGHIJKLMNOPQRSTUVWXYZ''"

definition is_digit :: "char \<Rightarrow> bool" where
  "is_digit c \<longleftrightarrow> c \<in> set ''0123456789''"

text \<open>White space and line terminators of ECMAScript (\<open>\s\<close>, \<open>StrWhiteSpaceChar\<close>):
  TAB, LF, VT, FF, CR, SP, U+00A0, U+1680, U+2000 to U+200A, U+2028, U+2029, U+202F, U+205F,
  U+3000, U+FEFF.\<close>

definition ws_table :: "string list" where
  "ws_table =
     [[CHR 0x09], [CHR 0x0A], [CHR 0x0B], [CHR 0x0C], [CHR 0x0D], [CHR 0x20],
      [CHR 0xC2, CHR 0xA0], [CHR 0xE1, CHR 0x9A, CHR 0x80],
      [CHR 0xE2, CHR 0x80, CHR 0x80], [CHR 0xE2, CHR 0x80, CHR 0x81],
      [CHR 0xE2, CHR 0x80, CHR 0x82], [CHR 0xE2, CHR 0x80, CHR 0x83],
      [CHR 0xE2, CHR 0x80, CHR 0x84], [CHR 0xE2, CHR 0x80, CHR 0x85],
      [CHR 0xE2, CHR 0x80, CHR 0x86], [CHR 0xE2, CHR 0x80, CHR 0x87],
      [CHR 0xE2, CHR 0x80, CHR 0x88], [CHR 0xE2, CHR 0x80, CHR 0x89],
      [CHR 0xE2, CHR 0x80, CHR 0x8A], [CHR 0xE2, CHR 0x80, CHR 0xA8],
      [CHR 0xE2, CHR 0x80, CHR 0xA9], [CHR 0xE2, CHR 0x80, CHR 0xAF],
      [CHR 0xE2, CHR 0x81, CHR 0x9F], [CHR 0xE3, CHR 0x80, CHR 0x80],
      [CHR 0xEF, CHR 0xBB, CHR 0xBF]]"

text \<open>The number of bytes of the white space character at the start of the string,
  0 when it starts with none.\<close>

fun ws_prefix :: "string list \<Rightarrow> string \<Rightarrow> nat" where
  "ws_prefix [] s = 0"
| "ws_prefix (w # ws) s = (if startsWith s w then length w else ws_prefix ws s)"

fun skip_ws :: "string \<Rightarrow> string" where
  "skip_ws [] = []"
| "skip_ws (c # cs) =
     (let n = ws_prefix ws_table (c # cs)
      in if n = 0 then c # cs else skip_ws (drop (n - 1) cs))"

declare skip_ws.simps [simp del]

section \<open>JavaScript values\<close>

text \<open>
  The values that flow through the program: what \<open>JSON.parse\<close> and the HTTP client
  deliver, and the object literals the program builds. \<open>JNum\<close> carries an integer-valued
  number; the model is exact for the safe integers (\<open>Number.isSafeInteger\<close>), where
  \<open>ToString\<close> prints the decimal digits and division by 1024 loses nothing. Fractional
  numbers and the infinities are not represented.
\<close>

datatype js = JUndefined | JNull | JBool bool | JNum int | JNaN | JStr string
  | JArr "js list" | JObj "(string \<times> js) list"


fun truthy :: "js \<Rightarrow> bool" where
  "truthy JUndefined = False"
| "truthy JNull = False"
| "truthy (JBool b) = b"
| "truthy (JNum n) = (n \<noteq> 0)"
| "truthy JNaN = False"
| "truthy (JStr s) = (s \<noteq> [])"
| "truthy (JArr xs) = True"
| "truthy (JObj kv) = True"

text \<open>\<open>a || b\<close>\<close>

definition js_or :: "js \<Rightarrow> js \<Rightarrow> js" where
  "js_or a b = (if truthy a then a else b)"

fun show_nat :: "nat \<Rightarrow> string" where
  "show_nat n = (if n < 10 then [''0123456789'' ! n]
                 else show_nat (n div 10) @ [''0123456789'' ! (n mod 10)])"

declare show_nat.simps [simp del]

definition show_int :: "int \<Rightarrow> string" where
  "show_int n = (if n < 0 then ''-'' @ show_nat (nat (- n)) else show_nat (nat n))"

fun join :: "string \<Rightarrow> string list \<Rightarrow> string" where
  "join sep [] = []"
| "join sep [x] = x"
| "join sep (x # y # ys) = x @ sep @ join sep (y # ys)"

text \<open>\<open>String(v)\<close>: an array prints its elements joined by commas, \<open>null\<close> and
  \<open>undefined\<close> elements as the empty string; a plain object prints as
  \<open>[object Object]\<close>.\<close>

fun ToString :: "js \<Rightarrow> string" where
  "ToString JUndefined = ''undefined''"
| "ToString JNull = ''null''"
| "ToString (JBool b) = (if b then ''true'' else ''false'')"
| "ToString (JNum n) = show_int n"
| "ToString JNaN = ''NaN''"
| "ToString (JStr s) = s"
| "ToString (JArr xs) =
     join '','' (map (\<lambda>x. if x = JUndefined \<or> x = JNull then [] else ToString x) xs)"
| "ToString (JObj kv) = ''[object Object]''"

section \<open>formatSize\<close>

text \<open>
  \<open>parseInt(string)\<close> without a radix: strip leading white space, read an optional
  sign, a \<open>0x\<close>/\<open>0X\<close> prefix selects radix 16, otherwise radix 10; the longest prefix of
  digits of the radix is the number, and \<open>NaN\<close> (here \<open>None\<close>) when that prefix is empty.
  The result is exact when it is a safe integer.
\<close>

definition digit_value :: "char \<Rightarrow> nat" where
  "digit_value c =
     (if is_digit c then code c - 48
      else if c \<in> set lower_case then code c - 87
      else if c \<in> set upper_case then code c - 55
      else 36)"

definition digits_value :: "nat \<Rightarrow> string \<Rightarrow> nat" where
  "digits_value R z = foldl (\<lambda>a c. a * R + digit_value c) 0 z"

definition parseInt :: "string \<Rightarrow> int option" where
  "parseInt str =
     (let s = skip_ws str;
          sign = (if startsWith s ''-'' then - 1 else 1);
          s1 = (if startsWith s ''+'' \<or> startsWith s ''-'' then drop 1 s else s);
          hex = (startsWith s1 ''0x'' \<or> startsWith s1 ''0X'');
          R = (if hex then 16 else 10);
          s2 = (if hex then drop 2 s1 else s1);
          z = takeWhile (\<lambda>c. digit_value c < R) s2
      in if z = [] then None else Some (sign * int (digits_value R z)))"

text \<open>
  \<open>x.toFixed(2)\<close> for a finite \<open>x\<close> below \<open>10^21\<close> in magnitude: the sign, then the
  integer \<open>n\<close> for which \<open>n / 100\<close> is closest to \<open>|x|\<close> (the larger one of two), printed
  with at least three digits and a point before the last two.
\<close>

definition point2 :: "nat \<Rightarrow> string" where
  "point2 n =
     (let m = show_nat n;
          m' = replicate (3 - length m) (CHR ''0'') @ m;
          k = length m'
      in take (k - 2) m' @ ''.'' @ drop (k - 2) m')"

definition toFixed2 :: "rat \<Rightarrow> string" where
  "toFixed2 x =
     (if x < 0 then ''-'' @ point2 (nat \<lfloor>- x * 100 + 1 / 2\<rfloor>)
      else point2 (nat \<lfloor>x * 100 + 1 / 2\<rfloor>))"

text \<open>
  \<^verbatim>\<open>
  function formatSize(bytes) {
      if (!bytes) return 'Unknown';
      const b = parseInt(bytes);
      if (isNaN(b)) return String(bytes);
      const u = ['B', 'KB', 'MB', 'GB', 'TB'];
      let i = 0, s = b;
      while (s >= 1024 && i < 4) { s /= 1024; i++; }
      return s.toFixed(2) + ' ' + u[i];
  }
  \<close>
  The function is the same in both variants of the service. The loop variable \<open>s\<close> is a
  rational: dividing a double by 1024 is exact. The array \<open>u\<close> is \<open>units\<close>.
\<close>

definition units :: "string list" where
  "units = [''B'', ''KB'', ''MB'', ''GB'', ''TB'']"

function formatSize_loop :: "rat \<Rightarrow> nat \<Rightarrow> rat \<times> nat" where
  "formatSize_loop s i =
     (if s \<ge> 1024 \<and> i < 4 then formatSize_loop (s / 1024) (i + 1) else (s, i))"
  by pat_completeness auto
termination
  by (relation "measure (\<lambda>(s, i). 4 - i)") auto

declare formatSize_loop.simps [simp del]

definition formatSize :: "js \<Rightarrow> string" where
  "formatSize bytes =
     (if \<not> truthy bytes then ''Unknown''
      else case parseInt (ToString bytes) of
             None \<Rightarrow> ToString bytes
           | Some b \<Rightarrow> (let (s, i) = formatSize_loop (of_int b) 0
                       in toFixed2 s @ '' '' @ units ! i))"


section \<open>Regular expression matches\<close>

text \<open>
  \<open>str.match(re)\<close> with a regular expression that is not global returns the leftmost
  match, or \<open>null\<close>. The program reads only capture group 1 of a match, so a match is
  modelled by that group. Each pattern is given by its match at the start of a string;
  \<open>search\<close> tries the start positions from left to right, the end of the string included.
\<close>

fun search :: "(string \<Rightarrow> string option) \<Rightarrow> string \<Rightarrow> string option" where
  "search m [] = m []"
| "search m (c # cs) = (case m (c # cs) of Some g \<Rightarrow> Some g | None \<Rightarrow> search m cs)"

text \<open>Case-insensitive comparison of the \<open>i\<close> flag, on the ASCII letters the patterns
  name.\<close>

definition upper :: "char \<Rightarrow> char" where
  "upper c = (case map_of (zip lower_case upper_case) c of Some C \<Rightarrow> C | None \<Rightarrow> c)"

fun startsWith_ci :: "string \<Rightarrow> string \<Rightarrow> bool" where
  "startsWith_ci s [] = True"
| "startsWith_ci [] (p # ps) = False"
| "startsWith_ci (c # cs) (p # ps) = (upper c = upper p \<and> startsWith_ci cs ps)"

text \<open>The class \<open>[a-zA-Z0-9_-]\<close>.\<close>

definition token_char :: "char \<Rightarrow> bool" where
  "token_char c \<longleftrightarrow>
     c \<in> set lower_case \<or> c \<in> set upper_case \<or> is_digit c \<or> c = CHR ''_'' \<or> c = CHR ''-''"

text \<open>\<open>[a-zA-Z0-9_-]+\<close>, greedy, at the end of a pattern.\<close>

definition token_plus :: "string \<Rightarrow> string option" where
  "token_plus r = (let t = takeWhile token_char r in if t = [] then None else Some t)"

text \<open>The group \<open>(1?[a-zA-Z0-9_-]+)\<close>: the optional \<open>1\<close> is tried first, and given up
  when the class then finds nothing.\<close>

definition surl_group :: "string \<Rightarrow> string option" where
  "surl_group r =
     (if startsWith r ''1'' then
        (case token_plus (drop 1 r) of
           Some t \<Rightarrow> Some (CHR ''1'' # t)
         | None \<Rightarrow> token_plus r)
      else token_plus r)"

text \<open>\<open>/\/s\/(1?[a-zA-Z0-9_-]+)/i\<close> and \<open>/surl=(1?[a-zA-Z0-9_-]+)/i\<close> at the start of a
  string.\<close>

definition path_at :: "string \<Rightarrow> string option" where
  "path_at s = (if startsWith_ci s ''/s/'' then surl_group (drop 3 s) else None)"

definition query_at :: "string \<Rightarrow> string option" where
  "query_at s = (if startsWith_ci s ''surl='' then surl_group (drop 5 s) else None)"

section \<open>extractSurl\<close>

text \<open>
  Second variant:
  \<^verbatim>\<open>
  function extractSurl(url) {
      const match = url.match(/\/s\/(1?[a-zA-Z0-9_-]+)/i) ||
                    url.match(/surl=(1?[a-zA-Z0-9_-]+)/i);
      if (match) return match[1];
      throw new Error('Invalid TeraBox URL');
  }
  \<close>
  A thrown \<open>Error\<close> is modelled by its message, on the left of a sum.
\<close>

definition extractSurl :: "string \<Rightarrow> string + string" where
  "extractSurl url =
     (case search path_at url of
        Some g \<Rightarrow> Inr g
      | None \<Rightarrow>
          (case search query_at url of
             Some g \<Rightarrow> Inr g
           | None \<Rightarrow> Inl ''Invalid TeraBox URL''))"

text \<open>
  First variant:
  \<^verbatim>\<open>
  function extractSurl(url) {
      const match = url.match(/\/s\/(1?[a-zA-Z0-9_-]+)/i);
      if (match) return match[1];
      throw new Error('Invalid URL');
  }
  \<close>
\<close>

definition extractSurl_first :: "string \<Rightarrow> string + string" where
  "extractSurl_first url =
     (case search path_at url of
        Some g \<Rightarrow> Inr g
      | None \<Rightarrow> Inl ''Invalid URL'')"

section \<open>getBaseUrl\<close>

text \<open>
  Second variant of the service (five known hosts):
  \<^verbatim>\<open>
  function getBaseUrl(url) {
      if (url.includes('1024tera.com')) return 'https://www.1024tera.com';
      if (url.includes('1024terabox.com')) return 'https://www.1024terabox.com';
      if (url.includes('4funbox.com')) return 'https://www.4funbox.com';
      if (url.includes('teraboxapp.com')) return 'https://www.teraboxapp.com';
      return 'https://www.terabox.com';
  }
  \<close>
\<close>

definition getBaseUrl :: "string \<Rightarrow> string" where
  "getBaseUrl url =
     (if includes_str url ''1024tera.com'' then ''https://www.1024tera.com''
      else if includes_str url ''1024terabox.com'' then ''https://www.1024terabox.com''
      else if includes_str url ''4funbox.com'' then ''https://www.4funbox.com''
      else if includes_str url ''teraboxapp.com'' then ''https://www.teraboxapp.com''
      else ''https://www.terabox.com'')"

text \<open>
  First variant of the service (three known hosts):
  \<^verbatim>\<open>
  function getBaseUrl(url) {
      if (url.includes('1024tera.com')) return 'https://www.1024tera.com';
      if (url.includes('1024terabox.com')) return 'https://www.1024terabox.com';
      return 'https://www.terabox.com';
  }
  \<close>
\<close>

definition getBaseUrl_first :: "string \<Rightarrow> string" where
  "getBaseUrl_first url =
     (if includes_str url ''1024tera.com'' then ''https://www.1024tera.com''
      else if includes_str url ''1024terabox.com'' then ''https://www.1024terabox.com''
      else ''https://www.terabox.com'')"

text \<open>The fixed tables the two functions choose from: host substring and base URL, in
  the order of the tests.\<close>

definition known_hosts :: "(string \<times> string) list" where
  "known_hosts =
     [(''1024tera.com'', ''https://www.1024tera.com''),
      (''1024terabox.com'', ''https://www.1024terabox.com''),
      (''4funbox.com'', ''https://www.4funbox.com''),
      (''teraboxapp.com'', ''https://www.teraboxapp.com'')]"

definition known_hosts_first :: "(string \<times> string) list" where
  "known_hosts_first = take 2 known_hosts"

definition default_base :: string where
  "default_base = ''https://www.terabox.com''"

text \<open>The reading of the specification: the base of the first table entry whose host
  occurs in the URL, the default when none does.\<close>

fun first_known :: "(string \<times> string) list \<Rightarrow> string \<Rightarrow> string" where
  "first_known [] url = default_base"
| "first_known ((h, b) # hs) url = (if includes_str url h then b else first_known hs url)"

section \<open>Objects, exceptions and the HTTP client\<close>

text \<open>
  Property reads. The keys the program reads are not properties of the built-in
  prototypes, so a read on anything but a plain object that has the key gives
  \<open>undefined\<close>. A read on \<open>null\<close> or \<open>undefined\<close> throws a \<open>TypeError\<close>; the model guards
  every read whose receiver can be one of them with \<open>nullish\<close>, and raises
  \<open>cannot_read\<close>, the message of the runtime.
\<close>

fun get_prop :: "js \<Rightarrow> string \<Rightarrow> js" where
  "get_prop (JObj kv) k = (case map_of kv k of Some v \<Rightarrow> v | None \<Rightarrow> JUndefined)"
| "get_prop v k = JUndefined"

definition nullish :: "js \<Rightarrow> bool" where
  "nullish v \<longleftrightarrow> v = JUndefined \<or> v = JNull"

text \<open>\<open>v?.k\<close>\<close>

definition opt_prop :: "js \<Rightarrow> string \<Rightarrow> js" where
  "opt_prop v k = (if nullish v then JUndefined else get_prop v k)"

definition cannot_read :: "js \<Rightarrow> string \<Rightarrow> string" where
  "cannot_read v k =
     ''Cannot read properties of '' @ ToString v @ '' (reading '' @ [CHR 0x27] @ k @ [CHR 0x27] @ '')''"

definition not_a_function :: "string \<Rightarrow> string" where
  "not_a_function e = e @ '' is not a function''"

text \<open>\<open>parseInt\<close> as a value.\<close>

definition js_parseInt :: "string \<Rightarrow> js" where
  "js_parseInt s = (case parseInt s of None \<Rightarrow> JNaN | Some n \<Rightarrow> JNum n)"

text \<open>\<open>encodeURIComponent\<close>: the unreserved characters stay, every other byte of the
  UTF-8 encoding becomes \<open>%XX\<close>.\<close>

definition unreserved :: "char \<Rightarrow> bool" where
  "unreserved c \<longleftrightarrow> token_char c \<or> c \<in> set ''.!~*()'' \<or> c = CHR 0x27"

definition percent :: "char \<Rightarrow> string" where
  "percent c =
     [CHR ''%'', ''0123456789ABCDEF'' ! (code c div 16), ''0123456789ABCDEF'' ! (code c mod 16)]"

definition encodeURIComponent :: "string \<Rightarrow> string" where
  "encodeURIComponent s = concat (map (\<lambda>c. if unreserved c then [c] else percent c) s)"

text \<open>
  An outbound GET. The answer of the network is a parameter of the model: for a request
  and the state of the world, the call either rejects with an error message (no answer in
  time, no connection, a status outside 2xx) or resolves with \<open>response.data\<close>, and the
  world moves on. An \<open>async\<close> function is a function from the world to its outcome and the
  new world; a rejected promise is \<open>Inl\<close> of the error's message.
\<close>

record request =
  req_url :: string
  req_headers :: "(string \<times> string) list"
  req_timeout :: nat

type_synonym 'w http = "request \<Rightarrow> 'w \<Rightarrow> (string + js) \<times> 'w"

type_synonym 'w strategy = "string \<Rightarrow> 'w \<Rightarrow> (string + js) \<times> 'w"

definition user_agent :: string where
  "user_agent = ''Mozilla/5.0 (Windows NT 10.0; Win64; x64) AppleWebKit/537.36 (KHTML, like Gecko) Chrome/120.0.0.0 Safari/537.36''"

text \<open>\<open>xs.map(f)\<close> with a callback that may throw: the first exception ends the map.\<close>

fun map_throwing :: "('a \<Rightarrow> string + 'b) \<Rightarrow> 'a list \<Rightarrow> string + 'b list" where
  "map_throwing f [] = Inr []"
| "map_throwing f (x # xs) =
     (case f x of
        Inl e \<Rightarrow> Inl e
      | Inr y \<Rightarrow> (case map_throwing f xs of Inl e \<Rightarrow> Inl e | Inr ys \<Rightarrow> Inr (y # ys)))"

section \<open>Second variant: the four strategies\<close>

text \<open>
  \<^verbatim>\<open>
  const client = axios.create({ timeout: 60000, headers: { 'User-Agent': ... } });
  \<close>
  \<open>client.get(url, { headers })\<close>: the headers of the call override the default ones.
\<close>

definition client_get :: "'w http \<Rightarrow> string \<Rightarrow> (string \<times> string) list \<Rightarrow> 'w \<Rightarrow> (string + js) \<times> 'w" where
  "client_get http url headers =
     http \<lparr>req_url = url,
           req_headers =
             (if ''User-Agent'' \<in> fst ` set headers then headers
              else (''User-Agent'', user_agent) # headers),
           req_timeout = 60000\<rparr>"

text \<open>
  \<^verbatim>\<open>
  async function tryNepCoderApi(url) {
      const apiUrl = `https://teraboxvideodownloader.nepcoderdevs.workers.dev/api/get-info?data=${encodeURIComponent(url)}`;
      const response = await client.get(apiUrl);
      const data = response.data;
      if (!data) throw new Error('Empty response');
      if (data.file_name || data.resolutions || data.download_link) {
          return {
              success: true,
              data: {
                  filename: data.file_name || 'Unknown',
                  size: data.size || data.sizebytes || 0,
                  sizeFormatted: formatSize(data.size || data.sizebytes),
                  thumb: data.thumb || null,
                  downloadUrl: data.download_link || data.dlink || null,
                  resolutions: data.resolutions || null,
                  fastDownload: data.resolutions?.['Fast Download'] || null,
                  hdVideo: data.resolutions?.['HD Video'] || null
              },
              source: 'nepcoderdevs'
          };
      }
      throw new Error('Invalid response format');
  }
  \<close>
\<close>

definition tryNepCoderApi :: "'w http \<Rightarrow> 'w strategy" where
  "tryNepCoderApi http url w =
     (case client_get http
             (''https://teraboxvideodownloader.nepcoderdevs.workers.dev/api/get-info?data=''
                @ encodeURIComponent url) [] w of
        (Inl e, w') \<Rightarrow> (Inl e, w')
      | (Inr data, w') \<Rightarrow>
          (if \<not> truthy data then (Inl ''Empty response'', w')
           else if truthy (js_or (js_or (get_prop data ''file_name'') (get_prop data ''resolutions''))
                                 (get_prop data ''download_link''))
           then (Inr (JObj
                  [(''success'', JBool True),
                   (''data'', JObj
                      [(''filename'', js_or (get_prop data ''file_name'') (JStr ''Unknown'')),
                       (''size'', js_or (js_or (get_prop data ''size'') (get_prop data ''sizebytes'')) (JNum 0)),
                       (''sizeFormatted'',
                          JStr (formatSize (js_or (get_prop data ''size'') (get_prop data ''sizebytes'')))),
                       (''thumb'', js_or (get_prop data ''thumb'') JNull),
                       (''downloadUrl'',
                          js_or (js_or (get_prop data ''download_link'') (get_prop data ''dlink'')) JNull),
                       (''resolutions'', js_or (get_prop data ''resolutions'') JNull),
                       (''fastDownload'',
                          js_or (opt_prop (get_prop data ''resolutions'') ''Fast Download'') JNull),
                       (''hdVideo'',
                          js_or (opt_prop (get_prop data ''resolutions'') ''HD Video'') JNull)]),
                   (''source'', JStr ''nepcoderdevs'')]), w')
           else (Inl ''Invalid response format'', w')))"

text \<open>
  \<^verbatim>\<open>
  async function tryUdayApi(url) {
      const apiUrl = `https://terabox.udayscriptsx.workers.dev/api/get-info?data=${encodeURIComponent(url)}`;
      const response = await client.get(apiUrl);
      const data = response.data;
      if (!data) throw new Error('Empty response');
      if (data.file_name || data.download_link) {
          return {
              success: true,
              data: {
                  filename: data.file_name || 'Unknown',
                  size: data.size || 0,
                  sizeFormatted: formatSize(data.size),
                  thumb: data.thumb || null,
                  downloadUrl: data.download_link || data.dlink || null,
                  resolutions: data.resolutions || null
              },
              source: 'udayscripts'
          };
      }
      throw new Error('Invalid response format');
  }
  \<close>
\<close>

definition tryUdayApi :: "'w http \<Rightarrow> 'w strategy" where
  "tryUdayApi http url w =
     (case client_get http
             (''https://terabox.udayscriptsx.workers.dev/api/get-info?data=''
                @ encodeURIComponent url) [] w of
        (Inl e, w') \<Rightarrow> (Inl e, w')
      | (Inr data, w') \<Rightarrow>
          (if \<not> truthy data then (Inl ''Empty response'', w')
           else if truthy (js_or (get_prop data ''file_name'') (get_prop data ''download_link''))
           then (Inr (JObj
                  [(''success'', JBool True),
                   (''data'', JObj
                      [(''filename'', js_or (get_prop data ''file_name'') (JStr ''Unknown'')),
                       (''size'', js_or (get_prop data ''size'') (JNum 0)),
                       (''sizeFormatted'', JStr (formatSize (get_prop data ''size''))),
                       (''thumb'', js_or (get_prop data ''thumb'') JNull),
                       (''downloadUrl'',
                          js_or (js_or (get_prop data ''download_link'') (get_prop data ''dlink'')) JNull),
                       (''resolutions'', js_or (get_prop data ''resolutions'') JNull)]),
                   (''source'', JStr ''udayscripts'')]), w')
           else (Inl ''Invalid response format'', w')))"

text \<open>
  \<^verbatim>\<open>
  async function tryDirectApi(url) {
      const surl = extractSurl(url);
      const baseUrl = getBaseUrl(url);
      const headers = {
          'User-Agent': '...',
          'Accept': 'application/json, text/plain, */*',
          'Referer': `${baseUrl}/s/${surl}`
      };
      const infoUrl = `${baseUrl}/api/shorturlinfo?shorturl=${surl}&root=1`;
      const infoRes = await client.get(infoUrl, { headers });
      if (infoRes.data.errno !== 0) {
          throw new Error('Share info error: ' + (infoRes.data.errmsg || infoRes.data.errno));
      }
      const shareInfo = {
          shareid: infoRes.data.shareid, uk: infoRes.data.uk,
          sign: infoRes.data.sign, timestamp: infoRes.data.timestamp
      };
      const listUrl = `${baseUrl}/share/list?shorturl=${surl}&dir=/&root=1&page=1&num=100`;
      const listRes = await client.get(listUrl, { headers });
      if (listRes.data.errno !== 0) {
          throw new Error('File list error: ' + (listRes.data.errmsg || listRes.data.errno));
      }
      const files = (listRes.data.list || []).map(f => ({
          fs_id: String(f.fs_id),
          filename: f.server_filename,
          size: f.size,
          sizeFormatted: formatSize(f.size),
          isDir: f.isdir === 1,
          dlink: f.dlink || null,
          thumb: f.thumbs?.url3 || f.thumbs?.url2 || null
      }));
      if (files.length === 0) {
          throw new Error('No files found');
      }
      return { success: true, data: { files, shareInfo }, source: 'direct' };
  }
  \<close>
\<close>

definition direct_file :: "js \<Rightarrow> string + js" where
  "direct_file f =
     (if nullish f then Inl (cannot_read f ''fs_id'')
      else Inr (JObj
        [(''fs_id'', JStr (ToString (get_prop f ''fs_id''))),
         (''filename'', get_prop f ''server_filename''),
         (''size'', get_prop f ''size''),
         (''sizeFormatted'', JStr (formatSize (get_prop f ''size''))),
         (''isDir'', JBool (get_prop f ''isdir'' = JNum 1)),
         (''dlink'', js_or (get_prop f ''dlink'') JNull),
         (''thumb'',
            js_or (js_or (opt_prop (get_prop f ''thumbs'') ''url3'')
                         (opt_prop (get_prop f ''thumbs'') ''url2'')) JNull)]))"

definition direct_headers :: "string \<Rightarrow> string \<Rightarrow> (string \<times> string) list" where
  "direct_headers baseUrl surl =
     [(''User-Agent'', user_agent),
      (''Accept'', ''application/json, text/plain, */*''),
      (''Referer'', baseUrl @ ''/s/'' @ surl)]"

definition tryDirectApi :: "'w http \<Rightarrow> 'w strategy" where
  "tryDirectApi http url w =
     (case extractSurl url of
        Inl e \<Rightarrow> (Inl e, w)
      | Inr surl \<Rightarrow>
          (let baseUrl = getBaseUrl url;
               headers = direct_headers baseUrl surl;
               infoUrl = baseUrl @ ''/api/shorturlinfo?shorturl='' @ surl @ ''&root=1''
           in case client_get http infoUrl headers w of
                (Inl e, w1) \<Rightarrow> (Inl e, w1)
              | (Inr info, w1) \<Rightarrow>
                  (if nullish info then (Inl (cannot_read info ''errno''), w1)
                   else if get_prop info ''errno'' \<noteq> JNum 0
                   then (Inl (''Share info error: ''
                               @ ToString (js_or (get_prop info ''errmsg'') (get_prop info ''errno''))), w1)
                   else
                     (let shareInfo = JObj
                            [(''shareid'', get_prop info ''shareid''),
                             (''uk'', get_prop info ''uk''),
                             (''sign'', get_prop info ''sign''),
                             (''timestamp'', get_prop info ''timestamp'')];
                          listUrl = baseUrl @ ''/share/list?shorturl='' @ surl
                                      @ ''&dir=/&root=1&page=1&num=100''
                      in case client_get http listUrl headers w1 of
                           (Inl e, w2) \<Rightarrow> (Inl e, w2)
                         | (Inr listing, w2) \<Rightarrow>
                             (if nullish listing then (Inl (cannot_read listing ''errno''), w2)
                              else if get_prop listing ''errno'' \<noteq> JNum 0
                              then (Inl (''File list error: ''
                                          @ ToString (js_or (get_prop listing ''errmsg'')
                                                            (get_prop listing ''errno''))), w2)
                              else
                                (case js_or (get_prop listing ''list'') (JArr []) of
                                   JArr fs \<Rightarrow>
                                     (case map_throwing direct_file fs of
                                        Inl e \<Rightarrow> (Inl e, w2)
                                      | Inr files \<Rightarrow>
                                          (if length files = 0 then (Inl ''No files found'', w2)
                                           else (Inr (JObj
                                                  [(''success'', JBool True),
                                                   (''data'', JObj
                                                      [(''files'', JArr files),
                                                       (''shareInfo'', shareInfo)]),
                                                   (''source'', JStr ''direct'')]), w2)))
                                 | _ \<Rightarrow>
                                     (Inl (not_a_function ''(listRes.data.list || []).map''),
                                      w2)))))))"

text \<open>
  The patterns of the page scrape, each at the start of a string:
  \<^verbatim>\<open>
  /"list"\s*:\s*(\[[\s\S]*?\])(?=\s*[,}])/
  /"server_filename"\s*:\s*"([^"]+)"/
  /"fs_id"\s*:\s*(\d+)/
  /"size"\s*:\s*(\d+)/
  /"dlink"\s*:\s*"([^"]+)"/
  \<close>
\<close>

definition dq :: char where
  "dq = CHR 0x22"

text \<open>\<open>"key"\s*:\s*\<close>; the result is what follows.\<close>

definition after_key :: "string \<Rightarrow> string \<Rightarrow> string option" where
  "after_key k s =
     (if startsWith s (dq # k @ [dq]) then
        (case skip_ws (drop (length k + 2) s) of
           [] \<Rightarrow> None
         | c # r \<Rightarrow> if c = CHR '':'' then Some (skip_ws r) else None)
      else None)"

text \<open>\<open>"([^"]+)"\<close>\<close>

definition quoted_value :: "string \<Rightarrow> string option" where
  "quoted_value r =
     (case r of
        [] \<Rightarrow> None
      | c # r' \<Rightarrow>
          (if c = dq then
             (let g = takeWhile (\<lambda>c. c \<noteq> dq) r'
              in if g \<noteq> [] \<and> startsWith (drop (length g) r') [dq] then Some g else None)
           else None))"

text \<open>\<open>(\d+)\<close>\<close>

definition digits :: "string \<Rightarrow> string option" where
  "digits r =
     (let g = takeWhile is_digit r
      in if g = [] then None else Some g)"

text \<open>\<open>(?=\s*[,}])\<close>\<close>

definition lookahead :: "string \<Rightarrow> bool" where
  "lookahead r = (case skip_ws r of [] \<Rightarrow> False | c # _ \<Rightarrow> c = CHR '','' \<or> c = CHR ''}'')"

text \<open>\<open>[\s\S]*?\]\<close> before the lookahead: the lazy star stops at the first \<open>]\<close> that the
  lookahead accepts.\<close>

fun list_body :: "string \<Rightarrow> string option" where
  "list_body [] = None"
| "list_body (c # r) =
     (if c = CHR '']'' \<and> lookahead r then Some [c] else map_option ((#) c) (list_body r))"

definition list_at :: "string \<Rightarrow> string option" where
  "list_at s =
     (case after_key ''list'' s of
        None \<Rightarrow> None
      | Some [] \<Rightarrow> None
      | Some (c # r) \<Rightarrow> if c = CHR ''['' then map_option ((#) c) (list_body r) else None)"

definition server_filename_at :: "string \<Rightarrow> string option" where
  "server_filename_at s = Option.bind (after_key ''server_filename'' s) quoted_value"

definition fs_id_at :: "string \<Rightarrow> string option" where
  "fs_id_at s = Option.bind (after_key ''fs_id'' s) digits"

definition size_at :: "string \<Rightarrow> string option" where
  "size_at s = Option.bind (after_key ''size'' s) digits"

definition dlink_at :: "string \<Rightarrow> string option" where
  "dlink_at s = Option.bind (after_key ''dlink'' s) quoted_value"

text \<open>\<open>str.replace(/\\/g, '')\<close>\<close>

definition strip_backslashes :: "string \<Rightarrow> string" where
  "strip_backslashes s = filter (\<lambda>c. c \<noteq> CHR 0x5C) s"

text \<open>The second verification marker, two CJK characters, as UTF-8.\<close>

definition verify_marker :: string where
  "verify_marker = [CHR 0xE9, CHR 0xAA, CHR 0x8C, CHR 0xE8, CHR 0xAF, CHR 0x81]"

text \<open>
  \<^verbatim>\<open>
  async function tryPageScrape(url) {
      const response = await client.get(url, {
          headers: { 'Accept': 'text/html,application/xhtml+xml,application/xml;q=0.9,*/*;q=0.8' }
      });
      const html = response.data;
      if (html.includes('verify') || html.includes(<marker>)) {
          throw new Error('Verification required');
      }
      const listMatch = html.match(/"list"\s*:\s*(\[[\s\S]*?\])(?=\s*[,}])/);
      if (listMatch) {
          try {
              const list = JSON.parse(listMatch[1]);
              const files = list.map(f => ({
                  fs_id: String(f.fs_id),
                  filename: f.server_filename || f.filename,
                  size: f.size,
                  sizeFormatted: formatSize(f.size),
                  dlink: f.dlink || null,
                  thumb: f.thumbs?.url3 || null
              }));
              if (files.length > 0) {
                  return { success: true, data: { files }, source: 'scrape' };
              }
          } catch (e) {
              throw new Error('Parse error');
          }
      }
      const fnMatch = html.match(/"server_filename"\s*:\s*"([^"]+)"/);
      const fsMatch = html.match(/"fs_id"\s*:\s*(\d+)/);
      const sizeMatch = html.match(/"size"\s*:\s*(\d+)/);
      const dlinkMatch = html.match(/"dlink"\s*:\s*"([^"]+)"/);
      if (fnMatch && fsMatch) {
          return {
              success: true,
              data: {
                  files: [{
                      fs_id: fsMatch[1],
                      filename: fnMatch[1].replace(/\\/g, ''),
                      size: sizeMatch ? parseInt(sizeMatch[1]) : 0,
                      sizeFormatted: sizeMatch ? formatSize(parseInt(sizeMatch[1])) : 'Unknown',
                      dlink: dlinkMatch ? dlinkMatch[1].replace(/\\/g, '') : null
                  }]
              },
              source: 'scrape'
          };
      }
      throw new Error('Could not extract data from page');
  }
  \<close>
  \<open>JSON.parse\<close> is a parameter: \<open>None\<close> when it throws. The HTTP client hands a body that
  is JSON over parsed, so \<open>html\<close> need not be a string.
\<close>

definition scrape_file :: "js \<Rightarrow> string + js" where
  "scrape_file f =
     (if nullish f then Inl (cannot_read f ''fs_id'')
      else Inr (JObj
        [(''fs_id'', JStr (ToString (get_prop f ''fs_id''))),
         (''filename'', js_or (get_prop f ''server_filename'') (get_prop f ''filename'')),
         (''size'', get_prop f ''size''),
         (''sizeFormatted'', JStr (formatSize (get_prop f ''size''))),
         (''dlink'', js_or (get_prop f ''dlink'') JNull),
         (''thumb'', js_or (opt_prop (get_prop f ''thumbs'') ''url3'') JNull)]))"

definition scrape_success :: "js list \<Rightarrow> js" where
  "scrape_success files =
     JObj [(''success'', JBool True),
           (''data'', JObj [(''files'', JArr files)]),
           (''source'', JStr ''scrape'')]"

text \<open>The body of the \<open>try\<close> up to \<open>files\<close>; every exception in it is caught and replaced.\<close>

definition scrape_list :: "(string \<Rightarrow> js option) \<Rightarrow> string \<Rightarrow> string + js list" where
  "scrape_list JSON_parse capture =
     (case JSON_parse capture of
        None \<Rightarrow> Inl ''Parse error''
      | Some (JArr xs) \<Rightarrow>
          (case map_throwing scrape_file xs of
             Inl e \<Rightarrow> Inl ''Parse error''
           | Inr files \<Rightarrow> Inr files)
      | Some _ \<Rightarrow> Inl ''Parse error'')"

definition single_file :: "string \<Rightarrow> string + js" where
  "single_file html =
     (let fnMatch = search server_filename_at html;
          fsMatch = search fs_id_at html;
          sizeMatch = search size_at html;
          dlinkMatch = search dlink_at html
      in case (fnMatch, fsMatch) of
           (Some fn, Some fs) \<Rightarrow>
             Inr (scrape_success
               [JObj [(''fs_id'', JStr fs),
                      (''filename'', JStr (strip_backslashes fn)),
                      (''size'', (case sizeMatch of Some d \<Rightarrow> js_parseInt d | None \<Rightarrow> JNum 0)),
                      (''sizeFormatted'',
                         JStr (case sizeMatch of
                                 Some d \<Rightarrow> formatSize (js_parseInt d)
                               | None \<Rightarrow> ''Unknown'')),
                      (''dlink'',
                         (case dlinkMatch of
                            Some d \<Rightarrow> JStr (strip_backslashes d)
                          | None \<Rightarrow> JNull))]])
         | _ \<Rightarrow> Inl ''Could not extract data from page'')"

definition scrape_html :: "(string \<Rightarrow> js option) \<Rightarrow> string \<Rightarrow> string + js" where
  "scrape_html JSON_parse html =
     (if includes_str html ''verify'' \<or> includes_str html verify_marker
      then Inl ''Verification required''
      else case search list_at html of
             Some capture \<Rightarrow>
               (case scrape_list JSON_parse capture of
                  Inl e \<Rightarrow> Inl e
                | Inr files \<Rightarrow>
                    if length files > 0 then Inr (scrape_success files) else single_file html)
           | None \<Rightarrow> single_file html)"

definition page_scrape :: "(string \<Rightarrow> js option) \<Rightarrow> js \<Rightarrow> string + js" where
  "page_scrape JSON_parse html =
     (case html of
        JStr h \<Rightarrow> scrape_html JSON_parse h
      | JArr xs \<Rightarrow>
          if JStr ''verify'' \<in> set xs \<or> JStr verify_marker \<in> set xs
          then Inl ''Verification required''
          else Inl (not_a_function ''html.match'')
      | JUndefined \<Rightarrow> Inl (cannot_read html ''includes'')
      | JNull \<Rightarrow> Inl (cannot_read html ''includes'')
      | _ \<Rightarrow> Inl (not_a_function ''html.includes''))"

definition tryPageScrape :: "'w http \<Rightarrow> (string \<Rightarrow> js option) \<Rightarrow> 'w strategy" where
  "tryPageScrape http JSON_parse url w =
     (case client_get http url
             [(''Accept'', ''text/html,application/xhtml+xml,application/xml;q=0.9,*/*;q=0.8'')] w of
        (Inl e, w') \<Rightarrow> (Inl e, w')
      | (Inr html, w') \<Rightarrow> (page_scrape JSON_parse html, w'))"

section \<open>Second variant: the orchestrator and the route\<close>

text \<open>
  \<^verbatim>\<open>
  async function getTeraboxData(shareUrl) {
      const errors = [];
      try {
          const result = await tryNepCoderApi(shareUrl);
          if (result.success) return result;
      } catch (e) {
          errors.push('API1: ' + e.message);
      }
      try {
          const result = await tryUdayApi(shareUrl);
          if (result.success) return result;
      } catch (e) {
          errors.push('API2: ' + e.message);
      }
      try {
          const result = await tryDirectApi(shareUrl);
          if (result.success) return result;
      } catch (e) {
          errors.push('Direct: ' + e.message);
      }
      try {
          const result = await tryPageScrape(shareUrl);
          if (result.success) return result;
      } catch (e) {
          errors.push('Scrape: ' + e.message);
      }
      return { success: false, error: 'All methods failed', details: errors };
  }
  \<close>
  One \<open>try\<close>/\<open>catch\<close> block is \<open>attempt\<close>: \<open>Inl\<close> is the value the function returns from
  inside the block, \<open>Inr\<close> the error log with which control reaches the next statement.
  The four strategies are parameters, so that the orchestrator can be run on any four
  functions; \<open>getTeraboxData\<close> is the orchestrator on the four strategies of the service.
\<close>

definition attempt :: "string \<Rightarrow> 'w strategy \<Rightarrow> string \<Rightarrow> string list \<Rightarrow> 'w \<Rightarrow> (js + string list) \<times> 'w" where
  "attempt tag strategy shareUrl errors w =
     (case strategy shareUrl w of
        (Inl message, w') \<Rightarrow> (Inr (errors @ [tag @ message]), w')
      | (Inr result, w') \<Rightarrow>
          (if nullish result then (Inr (errors @ [tag @ cannot_read result ''success'']), w')
           else if truthy (get_prop result ''success'') then (Inl result, w')
           else (Inr errors, w')))"

definition all_failed :: "string list \<Rightarrow> js" where
  "all_failed errors =
     JObj [(''success'', JBool False),
           (''error'', JStr ''All methods failed''),
           (''details'', JArr (map JStr errors))]"

definition getTeraboxData_with ::
  "'w strategy \<Rightarrow> 'w strategy \<Rightarrow> 'w strategy \<Rightarrow> 'w strategy \<Rightarrow> string \<Rightarrow> 'w \<Rightarrow> js \<times> 'w" where
  "getTeraboxData_with api1 api2 direct scrape shareUrl w =
     (case attempt ''API1: '' api1 shareUrl [] w of
        (Inl result, w1) \<Rightarrow> (result, w1)
      | (Inr errors1, w1) \<Rightarrow>
     (case attempt ''API2: '' api2 shareUrl errors1 w1 of
        (Inl result, w2) \<Rightarrow> (result, w2)
      | (Inr errors2, w2) \<Rightarrow>
     (case attempt ''Direct: '' direct shareUrl errors2 w2 of
        (Inl result, w3) \<Rightarrow> (result, w3)
      | (Inr errors3, w3) \<Rightarrow>
     (case attempt ''Scrape: '' scrape shareUrl errors3 w3 of
        (Inl result, w4) \<Rightarrow> (result, w4)
      | (Inr errors4, w4) \<Rightarrow> (all_failed errors4, w4)))))"

definition getTeraboxData :: "'w http \<Rightarrow> (string \<Rightarrow> js option) \<Rightarrow> string \<Rightarrow> 'w \<Rightarrow> js \<times> 'w" where
  "getTeraboxData http JSON_parse =
     getTeraboxData_with (tryNepCoderApi http) (tryUdayApi http) (tryDirectApi http)
       (tryPageScrape http JSON_parse)"

text \<open>
  \<^verbatim>\<open>
  app.get('/api/get', async (req, res) => {
      const { url } = req.query;
      if (!url) {
          return res.json({ success: false, error: 'URL parameter required' });
      }
      try {
          const result = await getTeraboxData(url);
          res.json(result);
      } catch (error) {
          res.json({ success: false, error: error.message });
      }
  });
  \<close>
  The handler is the same in both variants. \<open>res.json\<close> sends the body with the status the
  response has, and nothing in the program sets a status, so it is the framework's 200.
  The query is a map from parameter names to their (string) values. The orchestrator is a
  parameter that may throw, so that the \<open>catch\<close> is a branch of the model.
\<close>

record response =
  status :: nat
  body :: js

definition res_json :: "js \<Rightarrow> response" where
  "res_json b = \<lparr>status = 200, body = b\<rparr>"

definition api_get_with ::
  "(string \<Rightarrow> 'w \<Rightarrow> (string + js) \<times> 'w) \<Rightarrow> (string \<rightharpoonup> string) \<Rightarrow> 'w \<Rightarrow> response \<times> 'w" where
  "api_get_with orchestrator query w =
     (case query ''url'' of
        None \<Rightarrow>
          (res_json (JObj [(''success'', JBool False),
                           (''error'', JStr ''URL parameter required'')]), w)
      | Some url \<Rightarrow>
          (if url = [] then
             (res_json (JObj [(''success'', JBool False),
                              (''error'', JStr ''URL parameter required'')]), w)
           else case orchestrator url w of
                  (Inr result, w') \<Rightarrow> (res_json result, w')
                | (Inl message, w') \<Rightarrow>
                    (res_json (JObj [(''success'', JBool False),
                                     (''error'', JStr message)]), w')))"

text \<open>An \<open>async\<close> function that never throws, as the orchestrators.\<close>

definition returning :: "('a \<Rightarrow> 'w \<Rightarrow> js \<times> 'w) \<Rightarrow> 'a \<Rightarrow> 'w \<Rightarrow> (string + js) \<times> 'w" where
  "returning f x w = (case f x w of (r, w') \<Rightarrow> (Inr r, w'))"

definition api_get :: "'w http \<Rightarrow> (string \<Rightarrow> js option) \<Rightarrow> (string \<rightharpoonup> string) \<Rightarrow> 'w \<Rightarrow> response \<times> 'w" where
  "api_get http JSON_parse = api_get_with (returning (getTeraboxData http JSON_parse))"

section \<open>First variant: the five strategies, the orchestrator and the route\<close>

text \<open>The first variant calls \<open>axios.get(url, { headers, timeout })\<close> with no defaults.\<close>

definition axios_get ::
  "'w http \<Rightarrow> string \<Rightarrow> (string \<times> string) list \<Rightarrow> nat \<Rightarrow> 'w \<Rightarrow> (string + js) \<times> 'w" where
  "axios_get http url headers timeout =
     http \<lparr>req_url = url, req_headers = headers, req_timeout = timeout\<rparr>"

text \<open>
  \<^verbatim>\<open>
  async function tryApi1(url) {
      const apiUrl = `https://teraboxvideodownloader.nepcoderdevs.workers.dev/api/get-info?data=${encodeURIComponent(url)}`;
      const response = await axios.get(apiUrl, { timeout: 15000 });
      const data = response.data;
      if (data && (data.file_name || data.resolutions)) {
          return {
              success: true,
              data: {
                  filename: data.file_name,
                  size: data.size,
                  sizeFormatted: formatSize(data.size),
                  thumb: data.thumb,
                  downloadUrl: data.download_link || data.dlink,
                  resolutions: data.resolutions || null
              },
              source: 'api1'
          };
      }
      throw new Error('No data from API 1');
  }
  \<close>
\<close>

definition tryApi1 :: "'w http \<Rightarrow> 'w strategy" where
  "tryApi1 http url w =
     (case axios_get http
             (''https://teraboxvideodownloader.nepcoderdevs.workers.dev/api/get-info?data=''
                @ encodeURIComponent url) [] 15000 w of
        (Inl e, w') \<Rightarrow> (Inl e, w')
      | (Inr data, w') \<Rightarrow>
          (if truthy data \<and> truthy (js_or (get_prop data ''file_name'') (get_prop data ''resolutions''))
           then (Inr (JObj
                  [(''success'', JBool True),
                   (''data'', JObj
                      [(''filename'', get_prop data ''file_name''),
                       (''size'', get_prop data ''size''),
                       (''sizeFormatted'', JStr (formatSize (get_prop data ''size''))),
                       (''thumb'', get_prop data ''thumb''),
                       (''downloadUrl'',
                          js_or (get_prop data ''download_link'') (get_prop data ''dlink'')),
                       (''resolutions'', js_or (get_prop data ''resolutions'') JNull)]),
                   (''source'', JStr ''api1'')]), w')
           else (Inl ''No data from API 1'', w')))"

text \<open>
  \<^verbatim>\<open>
  function formatApiResponse(data) {
      if (data.file_name) {
          return {
              filename: data.file_name,
              size: data.size || data.sizebytes,
              sizeFormatted: formatSize(data.size || data.sizebytes),
              thumb: data.thumb,
              downloadUrl: data.download_link || data.dlink,
              resolutions: data.resolutions || null
          };
      }
      if (data.list) {
          return {
              files: data.list.map(f => ({
                  fs_id: String(f.fs_id),
                  filename: f.server_filename || f.filename,
                  size: f.size,
                  sizeFormatted: formatSize(f.size),
                  dlink: f.dlink,
                  thumb: f.thumbs?.url3 || null
              }))
          };
      }
      return data;
  }
  \<close>
  Its callers pass a truthy \<open>data\<close>.
\<close>

definition api_file :: "js \<Rightarrow> string + js" where
  "api_file f =
     (if nullish f then Inl (cannot_read f ''fs_id'')
      else Inr (JObj
        [(''fs_id'', JStr (ToString (get_prop f ''fs_id''))),
         (''filename'', js_or (get_prop f ''server_filename'') (get_prop f ''filename'')),
         (''size'', get_prop f ''size''),
         (''sizeFormatted'', JStr (formatSize (get_prop f ''size''))),
         (''dlink'', get_prop f ''dlink''),
         (''thumb'', js_or (opt_prop (get_prop f ''thumbs'') ''url3'') JNull)]))"

definition formatApiResponse :: "js \<Rightarrow> string + js" where
  "formatApiResponse data =
     (if truthy (get_prop data ''file_name'') then
        Inr (JObj
          [(''filename'', get_prop data ''file_name''),
           (''size'', js_or (get_prop data ''size'') (get_prop data ''sizebytes'')),
           (''sizeFormatted'',
              JStr (formatSize (js_or (get_prop data ''size'') (get_prop data ''sizebytes'')))),
           (''thumb'', get_prop data ''thumb''),
           (''downloadUrl'', js_or (get_prop data ''download_link'') (get_prop data ''dlink'')),
           (''resolutions'', js_or (get_prop data ''resolutions'') JNull)])
      else if truthy (get_prop data ''list'') then
        (case get_prop data ''list'' of
           JArr fs \<Rightarrow>
             (case map_throwing api_file fs of
                Inl e \<Rightarrow> Inl e
              | Inr files \<Rightarrow> Inr (JObj [(''files'', JArr files)]))
         | _ \<Rightarrow> Inl (not_a_function ''data.list.map''))
      else Inr data)"

text \<open>
  \<^verbatim>\<open>
  async function tryApi2(url) {
      const apiUrl = `https://terabox.udayscriptsx.workers.dev/api/get-info?data=${encodeURIComponent(url)}`;
      const response = await axios.get(apiUrl, { timeout: 15000 });
      const data = response.data;
      if (data && (data.file_name || data.list)) {
          return { success: true, data: formatApiResponse(data), source: 'api2' };
      }
      throw new Error('No data from API 2');
  }
  \<close>
  \<open>tryApi3\<close> differs in the host (\<open>teraboxdownloader.nepcoderdevs.workers.dev\<close>), in the
  second field it looks for (\<open>download_link\<close>), in the source (\<open>api3\<close>) and in the message.
\<close>

definition tryApi2 :: "'w http \<Rightarrow> 'w strategy" where
  "tryApi2 http url w =
     (case axios_get http
             (''https://terabox.udayscriptsx.workers.dev/api/get-info?data=''
                @ encodeURIComponent url) [] 15000 w of
        (Inl e, w') \<Rightarrow> (Inl e, w')
      | (Inr data, w') \<Rightarrow>
          (if truthy data \<and> truthy (js_or (get_prop data ''file_name'') (get_prop data ''list''))
           then (case formatApiResponse data of
                   Inl e \<Rightarrow> (Inl e, w')
                 | Inr d \<Rightarrow>
                     (Inr (JObj [(''success'', JBool True), (''data'', d),
                                 (''source'', JStr ''api2'')]), w'))
           else (Inl ''No data from API 2'', w')))"

definition tryApi3 :: "'w http \<Rightarrow> 'w strategy" where
  "tryApi3 http url w =
     (case axios_get http
             (''https://teraboxdownloader.nepcoderdevs.workers.dev/api/get-info?data=''
                @ encodeURIComponent url) [] 15000 w of
        (Inl e, w') \<Rightarrow> (Inl e, w')
      | (Inr data, w') \<Rightarrow>
          (if truthy data
              \<and> truthy (js_or (get_prop data ''file_name'') (get_prop data ''download_link''))
           then (case formatApiResponse data of
                   Inl e \<Rightarrow> (Inl e, w')
                 | Inr d \<Rightarrow>
                     (Inr (JObj [(''success'', JBool True), (''data'', d),
                                 (''source'', JStr ''api3'')]), w'))
           else (Inl ''No data from API 3'', w')))"

text \<open>
  \<^verbatim>\<open>
  async function tryApi4(url) {
      const surl = extractSurl(url);
      const baseUrl = getBaseUrl(url);
      const headers = { 'User-Agent': '...', 'Accept': 'application/json', 'Referer': baseUrl };
      const infoRes = await axios.get(`${baseUrl}/api/shorturlinfo?shorturl=${surl}&root=1`, { headers, timeout: 10000 });
      if (infoRes.data.errno !== 0) {
          throw new Error('API Error: ' + infoRes.data.errno);
      }
      const listRes = await axios.get(`${baseUrl}/share/list?shorturl=${surl}&dir=/&root=1&page=1&num=100`, { headers, timeout: 10000 });
      if (listRes.data.errno !== 0) {
          throw new Error('List Error: ' + listRes.data.errno);
      }
      const files = (listRes.data.list || []).map(f => ({
          fs_id: String(f.fs_id),
          filename: f.server_filename,
          size: f.size,
          sizeFormatted: formatSize(f.size),
          isDir: f.isdir === 1,
          dlink: f.dlink,
          thumb: f.thumbs?.url3 || null
      }));
      return {
          success: true,
          data: {
              files,
              shareInfo: {
                  shareid: infoRes.data.shareid, uk: infoRes.data.uk,
                  sign: infoRes.data.sign, timestamp: infoRes.data.timestamp
              }
          },
          source: 'direct'
      };
  }
  \<close>
\<close>

definition api4_file :: "js \<Rightarrow> string + js" where
  "api4_file f =
     (if nullish f then Inl (cannot_read f ''fs_id'')
      else Inr (JObj
        [(''fs_id'', JStr (ToString (get_prop f ''fs_id''))),
         (''filename'', get_prop f ''server_filename''),
         (''size'', get_prop f ''size''),
         (''sizeFormatted'', JStr (formatSize (get_prop f ''size''))),
         (''isDir'', JBool (get_prop f ''isdir'' = JNum 1)),
         (''dlink'', get_prop f ''dlink''),
         (''thumb'', js_or (opt_prop (get_prop f ''thumbs'') ''url3'') JNull)]))"

definition tryApi4 :: "'w http \<Rightarrow> 'w strategy" where
  "tryApi4 http url w =
     (case extractSurl_first url of
        Inl e \<Rightarrow> (Inl e, w)
      | Inr surl \<Rightarrow>
          (let baseUrl = getBaseUrl_first url;
               headers = [(''User-Agent'', user_agent), (''Accept'', ''application/json''),
                          (''Referer'', baseUrl)]
           in case axios_get http
                     (baseUrl @ ''/api/shorturlinfo?shorturl='' @ surl @ ''&root=1'')
                     headers 10000 w of
                (Inl e, w1) \<Rightarrow> (Inl e, w1)
              | (Inr info, w1) \<Rightarrow>
                  (if nullish info then (Inl (cannot_read info ''errno''), w1)
                   else if get_prop info ''errno'' \<noteq> JNum 0
                   then (Inl (''API Error: '' @ ToString (get_prop info ''errno'')), w1)
                   else
                     (case axios_get http
                             (baseUrl @ ''/share/list?shorturl='' @ surl
                                @ ''&dir=/&root=1&page=1&num=100'')
                             headers 10000 w1 of
                        (Inl e, w2) \<Rightarrow> (Inl e, w2)
                      | (Inr listing, w2) \<Rightarrow>
                          (if nullish listing then (Inl (cannot_read listing ''errno''), w2)
                           else if get_prop listing ''errno'' \<noteq> JNum 0
                           then (Inl (''List Error: '' @ ToString (get_prop listing ''errno'')), w2)
                           else
                             (case js_or (get_prop listing ''list'') (JArr []) of
                                JArr fs \<Rightarrow>
                                  (case map_throwing api4_file fs of
                                     Inl e \<Rightarrow> (Inl e, w2)
                                   | Inr files \<Rightarrow>
                                       (Inr (JObj
                                          [(''success'', JBool True),
                                           (''data'', JObj
                                              [(''files'', JArr files),
                                               (''shareInfo'', JObj
                                                  [(''shareid'', get_prop info ''shareid''),
                                                   (''uk'', get_prop info ''uk''),
                                                   (''sign'', get_prop info ''sign''),
                                                   (''timestamp'', get_prop info ''timestamp'')])]),
                                           (''source'', JStr ''direct'')]), w2))
                              | _ \<Rightarrow>
                                  (Inl (not_a_function ''(listRes.data.list || []).map''),
                                   w2)))))))"

text \<open>
  \<^verbatim>\<open>
  async function tryDirectScrape(url) {
      const response = await axios.get(url, {
          headers: { 'User-Agent': '...', 'Accept': 'text/html,application/xhtml+xml' },
          timeout: 15000
      });
      const html = response.data;
      const listMatch = html.match(/"list"\s*:\s*(\[[\s\S]*?\])(?=\s*[,}])/);
      if (listMatch) {
          try {
              const list = JSON.parse(listMatch[1]);
              const files = list.map(f => ({
                  fs_id: String(f.fs_id),
                  filename: f.server_filename,
                  size: f.size,
                  sizeFormatted: formatSize(f.size),
                  dlink: f.dlink,
                  thumb: f.thumbs?.url3 || null
              }));
              return { success: true, data: { files }, source: 'scrape' };
          } catch (e) {}
      }
      throw new Error('Could not parse page');
  }
  \<close>
\<close>

definition direct_scrape_file :: "js \<Rightarrow> string + js" where
  "direct_scrape_file f =
     (if nullish f then Inl (cannot_read f ''fs_id'')
      else Inr (JObj
        [(''fs_id'', JStr (ToString (get_prop f ''fs_id''))),
         (''filename'', get_prop f ''server_filename''),
         (''size'', get_prop f ''size''),
         (''sizeFormatted'', JStr (formatSize (get_prop f ''size''))),
         (''dlink'', get_prop f ''dlink''),
         (''thumb'', js_or (opt_prop (get_prop f ''thumbs'') ''url3'') JNull)]))"

definition direct_scrape :: "(string \<Rightarrow> js option) \<Rightarrow> js \<Rightarrow> string + js" where
  "direct_scrape JSON_parse html =
     (case html of
        JStr h \<Rightarrow>
          (case search list_at h of
             None \<Rightarrow> Inl ''Could not parse page''
           | Some capture \<Rightarrow>
               (case JSON_parse capture of
                  Some (JArr xs) \<Rightarrow>
                    (case map_throwing direct_scrape_file xs of
                       Inl e \<Rightarrow> Inl ''Could not parse page''
                     | Inr files \<Rightarrow> Inr (scrape_success files))
                | _ \<Rightarrow> Inl ''Could not parse page''))
      | JUndefined \<Rightarrow> Inl (cannot_read html ''match'')
      | JNull \<Rightarrow> Inl (cannot_read html ''match'')
      | _ \<Rightarrow> Inl (not_a_function ''html.match''))"

definition tryDirectScrape :: "'w http \<Rightarrow> (string \<Rightarrow> js option) \<Rightarrow> 'w strategy" where
  "tryDirectScrape http JSON_parse url w =
     (case axios_get http url
             [(''User-Agent'', user_agent), (''Accept'', ''text/html,application/xhtml+xml'')]
             15000 w of
        (Inl e, w') \<Rightarrow> (Inl e, w')
      | (Inr html, w') \<Rightarrow> (direct_scrape JSON_parse html, w'))"

text \<open>
  \<^verbatim>\<open>
  async function getTeraboxData(shareUrl) {
      const apis = [tryApi1, tryApi2, tryApi3, tryApi4, tryDirectScrape];
      let lastError = 'All methods failed';
      for (const api of apis) {
          try {
              const result = await api(shareUrl);
              if (result && result.success) {
                  return result;
              }
          } catch (e) {
              lastError = e.message;
              continue;
          }
      }
      return { success: false, error: lastError };
  }
  \<close>
\<close>

fun getTeraboxData_loop :: "'w strategy list \<Rightarrow> string \<Rightarrow> string \<Rightarrow> 'w \<Rightarrow> js \<times> 'w" where
  "getTeraboxData_loop [] shareUrl lastError w =
     (JObj [(''success'', JBool False), (''error'', JStr lastError)], w)"
| "getTeraboxData_loop (api # apis) shareUrl lastError w =
     (case api shareUrl w of
        (Inl message, w') \<Rightarrow> getTeraboxData_loop apis shareUrl message w'
      | (Inr result, w') \<Rightarrow>
          (if truthy result \<and> truthy (get_prop result ''success'') then (result, w')
           else getTeraboxData_loop apis shareUrl lastError w'))"

definition getTeraboxData_first_with :: "'w strategy list \<Rightarrow> string \<Rightarrow> 'w \<Rightarrow> js \<times> 'w" where
  "getTeraboxData_first_with apis shareUrl = getTeraboxData_loop apis shareUrl ''All methods failed''"

definition getTeraboxData_first ::
  "'w http \<Rightarrow> (string \<Rightarrow> js option) \<Rightarrow> string \<Rightarrow> 'w \<Rightarrow> js \<times> 'w" where
  "getTeraboxData_first http JSON_parse =
     getTeraboxData_first_with
       [tryApi1 http, tryApi2 http, tryApi3 http, tryApi4 http, tryDirectScrape http JSON_parse]"

definition api_get_first ::
  "'w http \<Rightarrow> (string \<Rightarrow> js option) \<Rightarrow> (string \<rightharpoonup> string) \<Rightarrow> 'w \<Rightarrow> response \<times> 'w" where
  "api_get_first http JSON_parse = api_get_with (returning (getTeraboxData_first http JSON_parse))"

section \<open>Mocked strategies and clients\<close>

text \<open>
  Stand-ins for running the orchestrators and the strategies on chosen outcomes: a
  strategy that throws, one that returns a value, a wrapper that records the call in a
  log kept beside the world, and an HTTP client that answers every request with the same
  data.
\<close>

definition raises :: "string \<Rightarrow> 'w strategy" where
  "raises message url w = (Inl message, w)"

definition returns :: "js \<Rightarrow> 'w strategy" where
  "returns result url w = (Inr result, w)"

definition logged :: "string \<Rightarrow> 'w strategy \<Rightarrow> ('w \<times> string list) strategy" where
  "logged name strategy url wl =
     (case strategy url (fst wl) of (outcome, w') \<Rightarrow> (outcome, (w', snd wl @ [name])))"

definition answering :: "js \<Rightarrow> 'w http" where
  "answering data request w = (Inr data, w)"

definition rejecting_parse :: "string \<Rightarrow> js option" where
  "rejecting_parse text = None"

text \<open>The outcome of a strategy that makes the orchestrators go on to the next one.\<close>

definition go_on :: "string + js \<Rightarrow> bool" where
  "go_on outcome =
     (case outcome of Inl message \<Rightarrow> True | Inr result \<Rightarrow> \<not> truthy (get_prop result ''success''))"

definition recording :: "'w http \<Rightarrow> ('w \<times> request list) http" where
  "recording http request wl =
     (case http request (fst wl) of (answer, w') \<Rightarrow> (answer, (w', snd wl @ [request])))"

text \<open>The strategies of a list all make the orchestrator go on, one after the other;
  the result is the world they leave.\<close>

fun go_on_through :: "'w strategy list \<Rightarrow> string \<Rightarrow> 'w \<Rightarrow> 'w option" where
  "go_on_through [] url w = Some w"
| "go_on_through (s # ss) url w =
     (case s url w of (outcome, w') \<Rightarrow> if go_on outcome then go_on_through ss url w' else None)"

text \<open>
  The state machine of the specification for the orchestrator of the second variant: the
  strategies, each with its tag, are attempted from left to right; the first result
  flagged successful ends the run, and the error log is returned by \<open>all_failed\<close> when the
  list is exhausted.
\<close>

fun attempts :: "(string \<times> 'w strategy) list \<Rightarrow> string \<Rightarrow> string list \<Rightarrow> 'w \<Rightarrow> js \<times> 'w" where
  "attempts [] shareUrl errors w = (all_failed errors, w)"
| "attempts ((tag, strategy) # rest) shareUrl errors w =
     (case attempt tag strategy shareUrl errors w of
        (Inl result, w') \<Rightarrow> (result, w')
      | (Inr errors', w') \<Rightarrow> attempts rest shareUrl errors' w')"

text \<open>What an attempt that does not succeed adds to the error log of the second variant:
  the tagged message of an exception, that of the runtime's \<open>TypeError\<close> when the strategy
  returned \<open>null\<close> or \<open>undefined\<close>, and nothing when it returned a value that is not
  flagged successful.\<close>

definition log_entry :: "string \<Rightarrow> string + js \<Rightarrow> string list" where
  "log_entry tag outcome =
     (case outcome of
        Inl message \<Rightarrow> [tag @ message]
      | Inr result \<Rightarrow> if nullish result then [tag @ cannot_read result ''success''] else [])"

text \<open>A strategy whose results all carry the flag \<open>success: true\<close>.\<close>

definition flags_success :: "'w strategy \<Rightarrow> bool" where
  "flags_success strategy \<longleftrightarrow>
     (\<forall>url w result w'. strategy url w = (Inr result, w') \<longrightarrow>
        get_prop result ''success'' = JBool True)"

section \<open>Properties of the string helpers\<close>

lemma startsWith_iff: "startsWith s p \<longleftrightarrow> (\<exists>suf. s = p @ suf)"
  by (induction s p rule: startsWith.induct) auto

lemma includes_iff: "includes_str s p \<longleftrightarrow> (\<exists>pre suf. s = pre @ p @ suf)"
proof (induction s)
  case Nil
  show ?case by auto
next
  case (Cons c cs)
  show ?case
  proof
    assume "includes_str (c # cs) p"
    then consider "startsWith (c # cs) p" | "includes_str cs p" by auto
    then show "\<exists>pre suf. c # cs = pre @ p @ suf"
    proof cases
      case 1
      then obtain suf where "c # cs = p @ suf" unfolding startsWith_iff by blast
      then have "c # cs = [] @ p @ suf" by simp
      then show ?thesis by blast
    next
      case 2
      then obtain pre suf where "cs = pre @ p @ suf" using Cons.IH by blast
      then have "c # cs = (c # pre) @ p @ suf" by simp
      then show ?thesis by blast
    qed
  next
    assume "\<exists>pre suf. c # cs = pre @ p @ suf"
    then obtain pre suf where eq: "c # cs = pre @ p @ suf" by blast
    show "includes_str (c # cs) p"
    proof (cases pre)
      case Nil
      with eq have "startsWith (c # cs) p" unfolding startsWith_iff by auto
      then show ?thesis by simp
    next
      case (Cons d pre')
      with eq have "cs = pre' @ p @ suf" by simp
      then have "includes_str cs p" using Cons.IH by blast
      then show ?thesis by simp
    qed
  qed
qed

lemma includes_sublist: "includes_str s p \<longleftrightarrow> sublist p s"
  by (simp add: includes_iff sublist_def)

section \<open>Properties of getBaseUrl\<close>

lemma getBaseUrl_first_known: "getBaseUrl url = first_known known_hosts url"
  by (simp add: getBaseUrl_def known_hosts_def default_base_def)

lemma getBaseUrl_first_first_known: "getBaseUrl_first url = first_known known_hosts_first url"
  by (simp add: getBaseUrl_first_def known_hosts_first_def known_hosts_def default_base_def)

lemma first_known_range: "first_known hs url \<in> insert default_base (snd ` set hs)"
  by (induction hs url rule: first_known.induct) auto

lemma first_known_default:
  "(\<forall>h \<in> fst ` set hs. \<not> includes_str url h) \<Longrightarrow> first_known hs url = default_base"
  by (induction hs url rule: first_known.induct) auto

lemma first_known_priority:
  "first_known (hs @ (h, b) # hs') url = b"
  if "\<forall>h' \<in> fst ` set hs. \<not> includes_str url h'" and "includes_str url h"
  using that by (induction hs url rule: first_known.induct) auto


section \<open>Properties of printing and parsing numbers\<close>















section \<open>Properties of formatSize\<close>


















section \<open>Properties of the pattern matches\<close>





lemma token_char_one: "token_char (CHR ''1'')"
  by (simp add: token_char_def is_digit_def)

lemma surl_group_token_plus: "surl_group r = token_plus r"
proof (cases "startsWith r ''1''")
  case False
  then show ?thesis by (simp add: surl_group_def)
next
  case True
  then obtain r' where r: "r = CHR ''1'' # r'" by (cases r) auto
  show ?thesis
  proof (cases "takeWhile token_char r' = []")
    case True
    then show ?thesis
      by (simp add: surl_group_def token_plus_def r token_char_one)
  next
    case False
    then show ?thesis
      by (simp add: surl_group_def token_plus_def r token_char_one)
  qed
qed


lemma takeWhile_after_dropWhile: "takeWhile P (dropWhile P xs) = []"
  by (induction xs) auto

lemma token_plus_Some:
  "token_plus r = Some g \<Longrightarrow>
     g \<noteq> [] \<and> (\<forall>c \<in> set g. token_char c) \<and> (\<exists>rest. r = g @ rest \<and> takeWhile token_char rest = [])"
proof -
  assume "token_plus r = Some g"
  then have g: "g = takeWhile token_char r" "g \<noteq> []"
    by (auto simp: token_plus_def Let_def split: if_splits)
  have all: "\<forall>c \<in> set g. token_char c"
    unfolding g(1) by (auto dest: set_takeWhileD)
  have split: "r = g @ dropWhile token_char r"
    unfolding g(1) by simp
  have "takeWhile token_char (dropWhile token_char r) = []"
    by (rule takeWhile_after_dropWhile)
  with g all split show ?thesis by blast
qed



lemma path_at_Some:
  "path_at s = Some g \<Longrightarrow>
     g \<noteq> [] \<and> (\<forall>c \<in> set g. token_char c)
     \<and> (\<exists>rest. drop 3 s = g @ rest \<and> takeWhile token_char rest = []) \<and> startsWith_ci s ''/s/''"
  using token_plus_Some [of "drop 3 s" g]
  by (simp add: path_at_def surl_group_token_plus split: if_splits)

lemma query_at_Some:
  "query_at s = Some g \<Longrightarrow>
     g \<noteq> [] \<and> (\<forall>c \<in> set g. token_char c)
     \<and> (\<exists>rest. drop 5 s = g @ rest \<and> takeWhile token_char rest = []) \<and> startsWith_ci s ''surl=''"
  using token_plus_Some [of "drop 5 s" g]
  by (simp add: query_at_def surl_group_token_plus split: if_splits)



section \<open>Properties of the orchestrators\<close>

lemma truthy_get_prop_not_nullish: "truthy (get_prop result k) \<Longrightarrow> \<not> nullish result"
  by (cases result) (auto simp: nullish_def)

lemma truthy_get_prop_truthy: "truthy (get_prop result k) \<Longrightarrow> truthy result"
  by (cases result) auto

lemma attempt_raise:
  "strategy url w = (Inl message, w') \<Longrightarrow>
     attempt tag strategy url errors w = (Inr (errors @ [tag @ message]), w')"
  by (simp add: attempt_def)

lemma attempt_success:
  "strategy url w = (Inr result, w') \<Longrightarrow> truthy (get_prop result ''success'') \<Longrightarrow>
     attempt tag strategy url errors w = (Inl result, w')"
  using truthy_get_prop_not_nullish [of result "''success''"] by (simp add: attempt_def)

lemma attempt_unflagged:
  "strategy url w = (Inr result, w') \<Longrightarrow> \<not> nullish result
     \<Longrightarrow> \<not> truthy (get_prop result ''success'') \<Longrightarrow>
     attempt tag strategy url errors w = (Inr errors, w')"
  by (simp add: attempt_def)

lemma attempt_go_on:
  "strategy url w = (outcome, w') \<Longrightarrow> go_on outcome \<Longrightarrow>
     attempt tag strategy url errors w = (Inr (errors @ log_entry tag outcome), w')"
  by (cases outcome) (auto simp: attempt_def go_on_def log_entry_def)

lemma getTeraboxData_with_attempts:
  "getTeraboxData_with api1 api2 direct scrape url w =
     attempts [(''API1: '', api1), (''API2: '', api2), (''Direct: '', direct),
               (''Scrape: '', scrape)] url [] w"
  by (simp add: getTeraboxData_with_def split: prod.splits sum.splits)

lemma attempts_first_success:
  "go_on_through (map snd pre) url w = Some w1 \<Longrightarrow> strategy url w1 = (Inr result, w2)
     \<Longrightarrow> truthy (get_prop result ''success'')
     \<Longrightarrow> attempts (pre @ (tag, strategy) # post) url errors w = (result, w2)"
proof (induction pre arbitrary: w errors)
  case Nil
  then show ?case by (simp add: attempt_success)
next
  case (Cons p pre)
  obtain t s where p: "p = (t, s)" by (cases p)
  obtain outcome w' where o: "s url w = (outcome, w')" by (cases "s url w")
  from Cons.prems(1) p o have g: "go_on outcome" and rest: "go_on_through (map snd pre) url w' = Some w1"
    by (auto split: if_splits)
  have "attempts (pre @ (tag, strategy) # post) url (errors @ log_entry t outcome) w' = (result, w2)"
    using rest Cons.prems(2,3) by (rule Cons.IH)
  then show ?case
    using p attempt_go_on [of s url w outcome _ t errors, OF o g] by simp
qed

lemma attempts_exhausted:
  "go_on_through (map snd tagged) url w = Some w' \<Longrightarrow>
     \<exists>errors'. attempts tagged url errors w = (all_failed errors', w')"
proof (induction tagged arbitrary: w errors)
  case Nil
  then show ?case by auto
next
  case (Cons p tagged)
  obtain t s where p: "p = (t, s)" by (cases p)
  obtain outcome w1 where o: "s url w = (outcome, w1)" by (cases "s url w")
  from Cons.prems p o have g: "go_on outcome" and rest: "go_on_through (map snd tagged) url w1 = Some w'"
    by (auto split: if_splits)
  from Cons.IH [OF rest] obtain errors' where
    "attempts tagged url (errors @ log_entry t outcome) w1 = (all_failed errors', w')"
    by blast
  then have "attempts (p # tagged) url errors w = (all_failed errors', w')"
    using p attempt_go_on [of s url w outcome _ t errors, OF o g] by simp
  then show ?case by blast
qed

lemma loop_first_success:
  "go_on_through pre url w = Some w1 \<Longrightarrow> strategy url w1 = (Inr result, w2)
     \<Longrightarrow> truthy (get_prop result ''success'')
     \<Longrightarrow> getTeraboxData_loop (pre @ strategy # post) url lastError w = (result, w2)"
proof (induction pre arbitrary: w lastError)
  case Nil
  then show ?case by (simp add: truthy_get_prop_truthy)
next
  case (Cons s pre)
  obtain outcome w' where o: "s url w = (outcome, w')" by (cases "s url w")
  from Cons.prems(1) o have g: "go_on outcome" and rest: "go_on_through pre url w' = Some w1"
    by (auto split: if_splits)
  have step: "getTeraboxData_loop (pre @ strategy # post) url e w' = (result, w2)" for e
    using rest Cons.prems(2,3) by (rule Cons.IH)
  show ?case
  proof (cases outcome)
    case (Inl message)
    with o step show ?thesis by simp
  next
    case (Inr r)
    with g have "\<not> truthy (get_prop r ''success'')" by (simp add: go_on_def)
    with o Inr step show ?thesis by simp
  qed
qed

lemma loop_exhausted:
  "go_on_through apis url w = Some w' \<Longrightarrow>
     \<exists>message. getTeraboxData_loop apis url lastError w =
       (JObj [(''success'', JBool False), (''error'', JStr message)], w')"
proof (induction apis arbitrary: w lastError)
  case Nil
  then show ?case by simp
next
  case (Cons s apis)
  obtain outcome w1 where o: "s url w = (outcome, w1)" by (cases "s url w")
  from Cons.prems o have g: "go_on outcome" and rest: "go_on_through apis url w1 = Some w'"
    by (auto split: if_splits)
  show ?case
  proof (cases outcome)
    case (Inl message)
    with o Cons.IH [OF rest, of message] show ?thesis by simp
  next
    case (Inr r)
    with g have "\<not> truthy (get_prop r ''success'')" by (simp add: go_on_def)
    with o Inr Cons.IH [OF rest, of lastError] show ?thesis by simp
  qed
qed

lemma go_on_through_logged:
  "go_on_through (map snd named) url w = Some w' \<Longrightarrow>
     go_on_through (map (\<lambda>(name, strategy). logged name strategy) named) url (w, calls)
       = Some (w', calls @ map fst named)"
proof (induction named arbitrary: w calls)
  case Nil
  then show ?case by simp
next
  case (Cons p named)
  obtain n s where p: "p = (n, s)" by (cases p)
  obtain outcome w1 where o: "s url w = (outcome, w1)" by (cases "s url w")
  from Cons.prems p o have g: "go_on outcome" and rest: "go_on_through (map snd named) url w1 = Some w'"
    by (auto split: if_splits)
  have "go_on_through (map (\<lambda>(name, strategy). logged name strategy) named) url (w1, calls @ [n])
          = Some (w', (calls @ [n]) @ map fst named)"
    using rest by (rule Cons.IH)
  moreover have "logged n s url (w, calls) = (outcome, (w1, calls @ [n]))"
    using o by (simp add: logged_def)
  ultimately show ?case
    using p g by simp
qed

lemma logged_outcome:
  "strategy url w = (outcome, w') \<Longrightarrow> logged name strategy url (w, calls) = (outcome, (w', calls @ [name]))"
  by (simp add: logged_def)

lemma with_first_success:
  assumes "[(n1, a), (n2, b), (n3, c), (n4, d)] = pre @ (n, s) # post"
    and "go_on_through (map snd pre) url w = Some w1"
    and "s url w1 = (Inr result, w2)"
    and "truthy (get_prop result ''success'')"
  shows "getTeraboxData_with a b c d url w = (result, w2)"
proof -
  from assms(1) consider
    (1) "pre = []" "s = a"
    | (2) "pre = [(n1, a)]" "s = b"
    | (3) "pre = [(n1, a), (n2, b)]" "s = c"
    | (4) "pre = [(n1, a), (n2, b), (n3, c)]" "s = d"
    by (auto simp: Cons_eq_append_conv)
  then show ?thesis
  proof cases
    case 1
    then show ?thesis
      using attempts_first_success [of "[]" url w w1 a result w2 "''API1: ''" _ "[]"] assms(2-4)
      by (simp add: getTeraboxData_with_attempts)
  next
    case 2
    then show ?thesis
      using attempts_first_success [of "[(''API1: '', a)]" url w w1 b result w2 "''API2: ''" _ "[]"]
        assms(2-4)
      by (simp add: getTeraboxData_with_attempts)
  next
    case 3
    then show ?thesis
      using attempts_first_success
        [of "[(''API1: '', a), (''API2: '', b)]" url w w1 c result w2 "''Direct: ''" _ "[]"]
        assms(2-4)
      by (simp add: getTeraboxData_with_attempts)
  next
    case 4
    then show ?thesis
      using attempts_first_success
        [of "[(''API1: '', a), (''API2: '', b), (''Direct: '', c)]" url w w1 d result w2
          "''Scrape: ''" "[]" "[]"]
        assms(2-4)
      by (simp add: getTeraboxData_with_attempts)
  qed
qed

lemma with_exhausted:
  "go_on_through [a, b, c, d] url w = Some w' \<Longrightarrow>
     \<exists>errors. getTeraboxData_with a b c d url w = (all_failed errors, w')"
  using attempts_exhausted
    [of "[(''API1: '', a), (''API2: '', b), (''Direct: '', c), (''Scrape: '', d)]" url w w' "[]"]
  by (simp add: getTeraboxData_with_attempts)

lemma tryNepCoderApi_result:
  "tryNepCoderApi http url w = (Inr result, w') \<Longrightarrow>
     get_prop result ''success'' = JBool True \<and> get_prop result ''source'' = JStr ''nepcoderdevs''"
  by (auto simp: tryNepCoderApi_def split: prod.splits sum.splits if_splits)

lemma tryUdayApi_result:
  "tryUdayApi http url w = (Inr result, w') \<Longrightarrow>
     get_prop result ''success'' = JBool True \<and> get_prop result ''source'' = JStr ''udayscripts''"
  by (auto simp: tryUdayApi_def split: prod.splits sum.splits if_splits)

lemma tryDirectApi_result:
  "tryDirectApi http url w = (Inr result, w') \<Longrightarrow>
     get_prop result ''success'' = JBool True \<and> get_prop result ''source'' = JStr ''direct''"
  by (auto simp: tryDirectApi_def Let_def split: prod.splits sum.splits if_splits js.splits)

lemma single_file_result:
  "single_file html = Inr result \<Longrightarrow>
     get_prop result ''success'' = JBool True \<and> get_prop result ''source'' = JStr ''scrape''"
  by (auto simp: single_file_def Let_def scrape_success_def split: option.splits)

lemma scrape_html_result:
  "scrape_html JSON_parse html = Inr result \<Longrightarrow>
     get_prop result ''success'' = JBool True \<and> get_prop result ''source'' = JStr ''scrape''"
  using single_file_result [of html result]
  by (auto simp: scrape_html_def scrape_success_def split: option.splits sum.splits if_splits)

lemma tryPageScrape_result:
  "tryPageScrape http JSON_parse url w = (Inr result, w') \<Longrightarrow>
     get_prop result ''success'' = JBool True \<and> get_prop result ''source'' = JStr ''scrape''"
  using scrape_html_result [of JSON_parse _ result]
  by (auto simp: tryPageScrape_def page_scrape_def split: prod.splits sum.splits js.splits if_splits)

lemma tryApi1_result:
  "tryApi1 http url w = (Inr result, w') \<Longrightarrow>
     get_prop result ''success'' = JBool True \<and> get_prop result ''source'' = JStr ''api1''"
  by (auto simp: tryApi1_def split: prod.splits sum.splits if_splits)

lemma tryApi2_result:
  "tryApi2 http url w = (Inr result, w') \<Longrightarrow>
     get_prop result ''success'' = JBool True \<and> get_prop result ''source'' = JStr ''api2''"
  by (auto simp: tryApi2_def split: prod.splits sum.splits if_splits)

lemma tryApi3_result:
  "tryApi3 http url w = (Inr result, w') \<Longrightarrow>
     get_prop result ''success'' = JBool True \<and> get_prop result ''source'' = JStr ''api3''"
  by (auto simp: tryApi3_def split: prod.splits sum.splits if_splits)

lemma tryApi4_result:
  "tryApi4 http url w = (Inr result, w') \<Longrightarrow>
     get_prop result ''success'' = JBool True \<and> get_prop result ''source'' = JStr ''direct''"
  by (auto simp: tryApi4_def Let_def split: prod.splits sum.splits if_splits js.splits)

lemma tryDirectScrape_result:
  "tryDirectScrape http JSON_parse url w = (Inr result, w') \<Longrightarrow>
     get_prop result ''success'' = JBool True \<and> get_prop result ''source'' = JStr ''scrape''"
  by (auto simp: tryDirectScrape_def direct_scrape_def scrape_success_def
      split: prod.splits sum.splits js.splits option.splits if_splits)

lemma attempts_flag:
  "\<forall>p \<in> set tagged. flags_success (snd p) \<Longrightarrow>
     \<exists>flag. get_prop (fst (attempts tagged url errors w)) ''success'' = JBool flag"
proof (induction tagged arbitrary: errors w)
  case Nil
  show ?case by (auto simp: all_failed_def)
next
  case (Cons p tagged)
  obtain t s where p: "p = (t, s)" by (cases p)
  have fs: "flags_success s" using Cons.prems p by simp
  have rest: "\<exists>flag. get_prop (fst (attempts tagged url e w')) ''success'' = JBool flag" for e w'
    using Cons.prems by (intro Cons.IH) simp
  obtain outcome w' where o: "s url w = (outcome, w')" by (cases "s url w")
  show ?case
  proof (cases "attempt t s url errors w")
    case (Pair a w'')
    show ?thesis
    proof (cases a)
      case (Inl r)
      with Pair o have "outcome = Inr r"
        by (cases outcome) (auto simp: attempt_def split: if_splits)
      with o fs have "get_prop r ''success'' = JBool True"
        unfolding flags_success_def by blast
      with Pair Inl p show ?thesis by auto
    next
      case (Inr e)
      with Pair p rest [of e w''] show ?thesis by simp
    qed
  qed
qed

lemma loop_flag:
  "\<forall>s \<in> set apis. flags_success s \<Longrightarrow>
     \<exists>flag. get_prop (fst (getTeraboxData_loop apis url lastError w)) ''success'' = JBool flag"
proof (induction apis arbitrary: lastError w)
  case Nil
  show ?case by auto
next
  case (Cons s apis)
  have fs: "flags_success s" using Cons.prems by simp
  have rest: "\<exists>flag. get_prop (fst (getTeraboxData_loop apis url e w')) ''success'' = JBool flag"
    for e w'
    using Cons.prems by (intro Cons.IH) simp
  obtain outcome w' where o: "s url w = (outcome, w')" by (cases "s url w")
  show ?case
  proof (cases outcome)
    case (Inl message)
    with o rest [of message w'] show ?thesis by simp
  next
    case (Inr r)
    show ?thesis
    proof (cases "truthy r \<and> truthy (get_prop r ''success'')")
      case True
      from o Inr fs have "get_prop r ''success'' = JBool True"
        unfolding flags_success_def by blast
      with o Inr True show ?thesis by auto
    next
      case False
      with o Inr rest [of lastError w'] show ?thesis by auto
    qed
  qed
qed

lemma getTeraboxData_flag:
  "\<exists>flag. get_prop (fst (getTeraboxData http JSON_parse url w)) ''success'' = JBool flag"
proof -
  have "flags_success (tryNepCoderApi http)"
    unfolding flags_success_def by (intro allI impI) (erule tryNepCoderApi_result [THEN conjunct1])
  moreover have "flags_success (tryUdayApi http)"
    unfolding flags_success_def by (intro allI impI) (erule tryUdayApi_result [THEN conjunct1])
  moreover have "flags_success (tryDirectApi http)"
    unfolding flags_success_def by (intro allI impI) (erule tryDirectApi_result [THEN conjunct1])
  moreover have "flags_success (tryPageScrape http JSON_parse)"
    unfolding flags_success_def by (intro allI impI) (erule tryPageScrape_result [THEN conjunct1])
  ultimately show ?thesis
    using attempts_flag [of "[(''API1: '', tryNepCoderApi http), (''API2: '', tryUdayApi http),
      (''Direct: '', tryDirectApi http), (''Scrape: '', tryPageScrape http JSON_parse)]" url "[]" w]
    by (simp add: getTeraboxData_def getTeraboxData_with_attempts)
qed

lemma getTeraboxData_first_flag:
  "\<exists>flag. get_prop (fst (getTeraboxData_first http JSON_parse url w)) ''success'' = JBool flag"
proof -
  have "flags_success (tryApi1 http)"
    unfolding flags_success_def by (intro allI impI) (erule tryApi1_result [THEN conjunct1])
  moreover have "flags_success (tryApi2 http)"
    unfolding flags_success_def by (intro allI impI) (erule tryApi2_result [THEN conjunct1])
  moreover have "flags_success (tryApi3 http)"
    unfolding flags_success_def by (intro allI impI) (erule tryApi3_result [THEN conjunct1])
  moreover have "flags_success (tryApi4 http)"
    unfolding flags_success_def by (intro allI impI) (erule tryApi4_result [THEN conjunct1])
  moreover have "flags_success (tryDirectScrape http JSON_parse)"
    unfolding flags_success_def by (intro allI impI) (erule tryDirectScrape_result [THEN conjunct1])
  ultimately show ?thesis
    using loop_flag [of "[tryApi1 http, tryApi2 http, tryApi3 http, tryApi4 http,
      tryDirectScrape http JSON_parse]" url "''All methods failed''" w]
    by (simp add: getTeraboxData_first_def getTeraboxData_first_with_def)
qed

lemma api_get_with_status: "status (fst (api_get_with orchestrator query w)) = 200"
  by (simp add: api_get_with_def res_json_def split: option.splits prod.splits sum.splits)

lemma api_get_with_flag:
  assumes "\<And>url w. \<exists>flag. get_prop (fst (f url w)) ''success'' = JBool flag"
  shows "\<exists>flag. get_prop (body (fst (api_get_with (returning f) query w))) ''success'' = JBool flag"
proof (cases "query ''url''")
  case None
  then show ?thesis by (auto simp: api_get_with_def res_json_def)
next
  case (Some url)
  show ?thesis
  proof (cases "url = []")
    case True
    with Some show ?thesis by (auto simp: api_get_with_def res_json_def)
  next
    case False
    obtain r w' where f: "f url w = (r, w')" by (cases "f url w")
    with assms [of url w] obtain flag where "get_prop r ''success'' = JBool flag" by auto
    with Some False f show ?thesis
      by (simp add: api_get_with_def res_json_def returning_def)
  qed
qed

section \<open>The claims\<close>

text \<open>
  Claim C9. The base URL resolver (\<open>getBaseUrl\<close>) is total: for every string it returns
  one member of the fixed set of known base URLs. It tests the known host substrings in
  a fixed priority order, so it returns the base of the first host of the table that
  occurs in the input, and the default base when no known host occurs. This holds for
  the five bases of the second variant and for the three bases of the first.
\<close>

theorem getBaseUrl_total:
  "getBaseUrl url \<in> set (map snd known_hosts) \<union> {default_base}
   \<and> getBaseUrl_first url \<in> set (map snd known_hosts_first) \<union> {default_base}
   \<and> (known_hosts = hs @ (h, b) # hs' \<and> (\<forall>h' \<in> fst ` set hs. \<not> includes_str url h')
        \<and> includes_str url h \<longrightarrow> getBaseUrl url = b)
   \<and> (known_hosts_first = hs @ (h, b) # hs' \<and> (\<forall>h' \<in> fst ` set hs. \<not> includes_str url h')
        \<and> includes_str url h \<longrightarrow> getBaseUrl_first url = b)
   \<and> ((\<forall>h' \<in> fst ` set known_hosts. \<not> includes_str url h') \<longrightarrow> getBaseUrl url = default_base)
   \<and> ((\<forall>h' \<in> fst ` set known_hosts_first. \<not> includes_str url h')
        \<longrightarrow> getBaseUrl_first url = default_base)"
proof -
  have "getBaseUrl url \<in> set (map snd known_hosts) \<union> {default_base}"
    using first_known_range [of known_hosts url] by (simp add: getBaseUrl_first_known)
  moreover have "getBaseUrl_first url \<in> set (map snd known_hosts_first) \<union> {default_base}"
    using first_known_range [of known_hosts_first url]
    by (simp add: getBaseUrl_first_first_known)
  moreover have "getBaseUrl url = b"
    if "known_hosts = hs @ (h, b) # hs'" "\<forall>h' \<in> fst ` set hs. \<not> includes_str url h'"
      "includes_str url h"
    using that first_known_priority [of hs url h b hs'] by (simp add: getBaseUrl_first_known)
  moreover have "getBaseUrl_first url = b"
    if "known_hosts_first = hs @ (h, b) # hs'" "\<forall>h' \<in> fst ` set hs. \<not> includes_str url h'"
      "includes_str url h"
    using that first_known_priority [of hs url h b hs']
    by (simp add: getBaseUrl_first_first_known)
  moreover have "getBaseUrl url = default_base"
    if "\<forall>h' \<in> fst ` set known_hosts. \<not> includes_str url h'"
    using that first_known_default [of known_hosts url] by (simp add: getBaseUrl_first_known)
  moreover have "getBaseUrl_first url = default_base"
    if "\<forall>h' \<in> fst ` set known_hosts_first. \<not> includes_str url h'"
    using that first_known_default [of known_hosts_first url]
    by (simp add: getBaseUrl_first_first_known)
  ultimately show ?thesis by blast
qed

theorem getBaseUrl_total_witness:
  "getBaseUrl ''https://1024terabox.com/s/1abc123'' = ''https://www.1024terabox.com''
   \<and> getBaseUrl_first ''https://1024terabox.com/s/1abc123'' = ''https://www.1024terabox.com''
   \<and> getBaseUrl ''https://example.org/s/1abc123'' = ''https://www.terabox.com''
   \<and> getBaseUrl_first ''https://www.4funbox.com/s/1abc123'' = ''https://www.terabox.com''"
proof -
  let ?u = "''https://1024terabox.com/s/1abc123''"
  let ?hs = "[(''1024tera.com'', ''https://www.1024tera.com'')]"
  let ?hs' = "[(''4funbox.com'', ''https://www.4funbox.com''),
               (''teraboxapp.com'', ''https://www.teraboxapp.com'')]"
  have k: "known_hosts = ?hs @ (''1024terabox.com'', ''https://www.1024terabox.com'') # ?hs'"
    by (simp add: known_hosts_def)
  have k1: "known_hosts_first = ?hs @ (''1024terabox.com'', ''https://www.1024terabox.com'') # []"
    by (simp add: known_hosts_first_def known_hosts_def)
  have a: "\<forall>h' \<in> fst ` set ?hs. \<not> includes_str ?u h'"
    by simp
  have b: "includes_str ?u ''1024terabox.com''"
    by simp
  have c: "\<forall>h' \<in> fst ` set known_hosts. \<not> includes_str ''https://example.org/s/1abc123'' h'"
    by (simp add: known_hosts_def)
  have d: "\<forall>h' \<in> fst ` set known_hosts_first.
             \<not> includes_str ''https://www.4funbox.com/s/1abc123'' h'"
    by (simp add: known_hosts_first_def known_hosts_def)
  have 1: "getBaseUrl ?u = ''https://www.1024terabox.com''"
    using getBaseUrl_total [of ?u ?hs "''1024terabox.com''" "''https://www.1024terabox.com''" ?hs']
      k a b by blast
  have 2: "getBaseUrl_first ?u = ''https://www.1024terabox.com''"
    using getBaseUrl_total [of ?u ?hs "''1024terabox.com''" "''https://www.1024terabox.com''" "[]"]
      k1 a b by blast
  have 3: "getBaseUrl ''https://example.org/s/1abc123'' = default_base"
    using getBaseUrl_total [of "''https://example.org/s/1abc123''"] c by blast
  have 4: "getBaseUrl_first ''https://www.4funbox.com/s/1abc123'' = default_base"
    using getBaseUrl_total [of "''https://www.4funbox.com/s/1abc123''"] d by blast
  show ?thesis
    using 1 2 3 4 unfolding default_base_def by blast
qed








text \<open>
  Claim C6, as amended. In the vendor-direct strategy of the second variant
  (\<open>tryDirectApi\<close>), after both upstream calls report a zero status code, an empty file
  listing (an empty or absent \<open>list\<close>) is a failure: the strategy raises
  \<open>No files found\<close>, and whenever it returns a result the list of files in it is not
  empty. The vendor-direct strategy of the first variant (\<open>tryApi4\<close>) has no such check:
  in the same situation it returns a successful result that carries zero files.
\<close>

theorem tryDirectApi_empty_listing:
  "(tryDirectApi http url w = (Inr result, w') \<longrightarrow>
      (\<exists>files. files \<noteq> [] \<and> get_prop (get_prop result ''data'') ''files'' = JArr files))
   \<and> (extractSurl url = Inr surl
      \<and> client_get http (getBaseUrl url @ ''/api/shorturlinfo?shorturl='' @ surl @ ''&root=1'')
            (direct_headers (getBaseUrl url) surl) w = (Inr info, w1)
      \<and> get_prop info ''errno'' = JNum 0
      \<and> client_get http
            (getBaseUrl url @ ''/share/list?shorturl='' @ surl @ ''&dir=/&root=1&page=1&num=100'')
            (direct_headers (getBaseUrl url) surl) w1 = (Inr listing, w2)
      \<and> get_prop listing ''errno'' = JNum 0
      \<and> js_or (get_prop listing ''list'') (JArr []) = JArr []
    \<longrightarrow> tryDirectApi http url w = (Inl ''No files found'', w2))
   \<and> (extractSurl_first url = Inr surl
      \<and> axios_get http (getBaseUrl_first url @ ''/api/shorturlinfo?shorturl='' @ surl @ ''&root=1'')
            [(''User-Agent'', user_agent), (''Accept'', ''application/json''),
             (''Referer'', getBaseUrl_first url)] 10000 w = (Inr info, w1)
      \<and> get_prop info ''errno'' = JNum 0
      \<and> axios_get http
            (getBaseUrl_first url @ ''/share/list?shorturl='' @ surl
               @ ''&dir=/&root=1&page=1&num=100'')
            [(''User-Agent'', user_agent), (''Accept'', ''application/json''),
             (''Referer'', getBaseUrl_first url)] 10000 w1 = (Inr listing, w2)
      \<and> get_prop listing ''errno'' = JNum 0
      \<and> js_or (get_prop listing ''list'') (JArr []) = JArr []
    \<longrightarrow> (\<exists>shareInfo. tryApi4 http url w =
          (Inr (JObj [(''success'', JBool True),
                      (''data'', JObj [(''files'', JArr []), (''shareInfo'', shareInfo)]),
                      (''source'', JStr ''direct'')]), w2)))"
proof -
  have nonempty: "\<exists>files. files \<noteq> [] \<and> get_prop (get_prop result ''data'') ''files'' = JArr files"
    if "tryDirectApi http url w = (Inr result, w')"
    using that
    by (auto simp: tryDirectApi_def Let_def split: sum.splits prod.splits if_splits js.splits)
  have errno: "\<not> nullish v" if "get_prop v ''errno'' = JNum 0" for v
    using that by (auto simp: nullish_def)
  have second: "tryDirectApi http url w = (Inl ''No files found'', w2)"
    if "extractSurl url = Inr surl"
      "client_get http (getBaseUrl url @ ''/api/shorturlinfo?shorturl='' @ surl @ ''&root=1'')
            (direct_headers (getBaseUrl url) surl) w = (Inr info, w1)"
      "get_prop info ''errno'' = JNum 0"
      "client_get http
            (getBaseUrl url @ ''/share/list?shorturl='' @ surl @ ''&dir=/&root=1&page=1&num=100'')
            (direct_headers (getBaseUrl url) surl) w1 = (Inr listing, w2)"
      "get_prop listing ''errno'' = JNum 0"
      "js_or (get_prop listing ''list'') (JArr []) = JArr []"
    using that errno [of info] errno [of listing]
    by (simp add: tryDirectApi_def Let_def)
  have first: "\<exists>shareInfo. tryApi4 http url w =
          (Inr (JObj [(''success'', JBool True),
                      (''data'', JObj [(''files'', JArr []), (''shareInfo'', shareInfo)]),
                      (''source'', JStr ''direct'')]), w2)"
    if "extractSurl_first url = Inr surl"
      "axios_get http (getBaseUrl_first url @ ''/api/shorturlinfo?shorturl='' @ surl @ ''&root=1'')
            [(''User-Agent'', user_agent), (''Accept'', ''application/json''),
             (''Referer'', getBaseUrl_first url)] 10000 w = (Inr info, w1)"
      "get_prop info ''errno'' = JNum 0"
      "axios_get http
            (getBaseUrl_first url @ ''/share/list?shorturl='' @ surl
               @ ''&dir=/&root=1&page=1&num=100'')
            [(''User-Agent'', user_agent), (''Accept'', ''application/json''),
             (''Referer'', getBaseUrl_first url)] 10000 w1 = (Inr listing, w2)"
      "get_prop listing ''errno'' = JNum 0"
      "js_or (get_prop listing ''list'') (JArr []) = JArr []"
    using that errno [of info] errno [of listing]
    by (simp add: tryApi4_def Let_def)
  show ?thesis
    using nonempty second first by blast
qed

theorem tryDirectApi_empty_listing_witness:
  "tryDirectApi (answering (JObj [(''errno'', JNum 0), (''list'', JArr [])]))
      ''https://terabox.com/s/1abc123'' () = (Inl ''No files found'', ())
   \<and> (\<exists>shareInfo.
        tryApi4 (answering (JObj [(''errno'', JNum 0), (''list'', JArr [])]))
          ''https://terabox.com/s/1abc123'' () =
          (Inr (JObj [(''success'', JBool True),
                      (''data'', JObj [(''files'', JArr []), (''shareInfo'', shareInfo)]),
                      (''source'', JStr ''direct'')]), ()))
   \<and> (\<exists>files. files \<noteq> []
        \<and> get_prop (get_prop
             (JObj [(''success'', JBool True),
                    (''data'', JObj
                       [(''files'', JArr [JObj [(''fs_id'', JStr ''undefined''),
                           (''filename'', JUndefined), (''size'', JUndefined),
                           (''sizeFormatted'', JStr ''Unknown''), (''isDir'', JBool False),
                           (''dlink'', JNull), (''thumb'', JNull)]]),
                        (''shareInfo'', JObj [(''shareid'', JUndefined), (''uk'', JUndefined),
                           (''sign'', JUndefined), (''timestamp'', JUndefined)])]),
                    (''source'', JStr ''direct'')]) ''data'') ''files'' = JArr files)"
proof -
  let ?d = "JObj [(''errno'', JNum 0), (''list'', JArr [])]"
  let ?e = "JObj [(''errno'', JNum 0), (''list'', JArr [JObj []])]"
  let ?url = "''https://terabox.com/s/1abc123''"
  let ?r = "JObj [(''success'', JBool True),
                    (''data'', JObj
                       [(''files'', JArr [JObj [(''fs_id'', JStr ''undefined''),
                           (''filename'', JUndefined), (''size'', JUndefined),
                           (''sizeFormatted'', JStr ''Unknown''), (''isDir'', JBool False),
                           (''dlink'', JNull), (''thumb'', JNull)]]),
                        (''shareInfo'', JObj [(''shareid'', JUndefined), (''uk'', JUndefined),
                           (''sign'', JUndefined), (''timestamp'', JUndefined)])]),
                    (''source'', JStr ''direct'')]"
  have s: "extractSurl ?url = Inr ''1abc123''" by code_simp
  have s1: "extractSurl_first ?url = Inr ''1abc123''" by code_simp
  have c: "client_get (answering ?d) x h () = (Inr ?d, ())" for x h
    by (simp add: client_get_def answering_def)
  have a: "axios_get (answering ?d) x h t () = (Inr ?d, ())" for x h t
    by (simp add: axios_get_def answering_def)
  have z: "get_prop ?d ''errno'' = JNum 0" by simp
  have l: "js_or (get_prop ?d ''list'') (JArr []) = JArr []" by (simp add: js_or_def)
  have ce: "client_get (answering ?e) x h () = (Inr ?e, ())" for x h
    by (simp add: client_get_def answering_def)
  have run: "tryDirectApi (answering ?e) ?url () = (Inr ?r, ())"
    by (simp add: tryDirectApi_def Let_def s ce nullish_def js_or_def direct_file_def
        opt_prop_def formatSize_def)
  note T = tryDirectApi_empty_listing
    [of "answering ?d" ?url "()" _ _ "''1abc123''" ?d "()" ?d "()"]
  have 1: "tryDirectApi (answering ?d) ?url () = (Inl ''No files found'', ())"
    by (rule T [THEN conjunct2, THEN conjunct1, THEN mp]) (intro conjI s c z l)
  have 2: "\<exists>shareInfo. tryApi4 (answering ?d) ?url () =
          (Inr (JObj [(''success'', JBool True),
                      (''data'', JObj [(''files'', JArr []), (''shareInfo'', shareInfo)]),
                      (''source'', JStr ''direct'')]), ())"
    by (rule T [THEN conjunct2, THEN conjunct2, THEN mp]) (intro conjI s1 a z l)
  have 3: "\<exists>files. files \<noteq> [] \<and> get_prop (get_prop ?r ''data'') ''files'' = JArr files"
    by (rule tryDirectApi_empty_listing [of "answering ?e" ?url "()" ?r "()",
          THEN conjunct1, THEN mp]) (rule run)
  show ?thesis by (intro conjI 1 2 3)
qed

text \<open>
  The claim as stated fails on the first variant: with both upstream answers reporting
  \<open>errno\<close> 0 and an empty \<open>list\<close>, \<open>tryApi4\<close> returns a successful result whose files are
  the empty list.
\<close>

theorem tryApi4_counterexample:
  "tryApi4 (answering (JObj [(''errno'', JNum 0), (''list'', JArr [])]))
     ''https://terabox.com/s/1abc123'' () =
   (Inr (JObj [(''success'', JBool True),
               (''data'', JObj
                  [(''files'', JArr []),
                   (''shareInfo'', JObj [(''shareid'', JUndefined), (''uk'', JUndefined),
                                         (''sign'', JUndefined), (''timestamp'', JUndefined)])]),
               (''source'', JStr ''direct'')]), ())"
proof -
  have s: "extractSurl_first ''https://terabox.com/s/1abc123'' = Inr ''1abc123''"
    by code_simp
  show ?thesis
    by (simp add: tryApi4_def Let_def s axios_get_def answering_def nullish_def js_or_def)
qed

text \<open>
  Claim C1. The orchestrator runs the strategies strictly in their fixed order and stops
  at the first success. Whenever every strategy before the \<open>i\<close>-th one raises or returns
  a result that is not flagged successful, and the \<open>i\<close>-th one returns a result flagged
  successful, the orchestrator returns that very result (so its \<open>source\<close> is the one the
  \<open>i\<close>-th strategy wrote) and leaves the world as the \<open>i\<close>-th strategy left it; run on
  strategies that record their invocation, the record holds the first \<open>i\<close> strategies in
  order and no later one. This holds for the four strategies of the second variant and
  for the list of strategies the first variant iterates. Each strategy of the service
  writes its own fixed \<open>source\<close> into every result it returns.
\<close>

theorem first_success_wins:
  "([(n1, api1), (n2, api2), (n3, direct), (n4, scrape)] = pre @ (n, strategy) # post
      \<and> go_on_through (map snd pre) url w = Some w1
      \<and> strategy url w1 = (Inr result, w2) \<and> truthy (get_prop result ''success'')
    \<longrightarrow> getTeraboxData_with api1 api2 direct scrape url w = (result, w2)
      \<and> getTeraboxData_with (logged n1 api1) (logged n2 api2) (logged n3 direct)
            (logged n4 scrape) url (w, []) = (result, (w2, map fst pre @ [n])))
   \<and> (named = pre @ (n, strategy) # post
      \<and> go_on_through (map snd pre) url w = Some w1
      \<and> strategy url w1 = (Inr result, w2) \<and> truthy (get_prop result ''success'')
    \<longrightarrow> getTeraboxData_first_with (map snd named) url w = (result, w2)
      \<and> getTeraboxData_first_with (map (\<lambda>(name, s). logged name s) named) url (w, [])
            = (result, (w2, map fst pre @ [n])))
   \<and> (tryNepCoderApi http url w = (Inr result, w2)
    \<longrightarrow> get_prop result ''source'' = JStr ''nepcoderdevs'')
   \<and> (tryUdayApi http url w = (Inr result, w2)
    \<longrightarrow> get_prop result ''source'' = JStr ''udayscripts'')
   \<and> (tryDirectApi http url w = (Inr result, w2)
    \<longrightarrow> get_prop result ''source'' = JStr ''direct'')
   \<and> (tryPageScrape http JSON_parse url w = (Inr result, w2)
    \<longrightarrow> get_prop result ''source'' = JStr ''scrape'')
   \<and> (tryApi1 http url w = (Inr result, w2) \<longrightarrow> get_prop result ''source'' = JStr ''api1'')
   \<and> (tryApi2 http url w = (Inr result, w2) \<longrightarrow> get_prop result ''source'' = JStr ''api2'')
   \<and> (tryApi3 http url w = (Inr result, w2) \<longrightarrow> get_prop result ''source'' = JStr ''api3'')
   \<and> (tryApi4 http url w = (Inr result, w2) \<longrightarrow> get_prop result ''source'' = JStr ''direct'')
   \<and> (tryDirectScrape http JSON_parse url w = (Inr result, w2)
    \<longrightarrow> get_prop result ''source'' = JStr ''scrape'')"
proof -
  have second: "getTeraboxData_with api1 api2 direct scrape url w = (result, w2)
      \<and> getTeraboxData_with (logged n1 api1) (logged n2 api2) (logged n3 direct)
            (logged n4 scrape) url (w, []) = (result, (w2, map fst pre @ [n]))"
    if eq: "[(n1, api1), (n2, api2), (n3, direct), (n4, scrape)] = pre @ (n, strategy) # post"
      and pre: "go_on_through (map snd pre) url w = Some w1"
      and run: "strategy url w1 = (Inr result, w2)"
      and flag: "truthy (get_prop result ''success'')"
  proof
    show "getTeraboxData_with api1 api2 direct scrape url w = (result, w2)"
      using eq pre run flag by (rule with_first_success)
    let ?wrap = "\<lambda>(name, s). (name, logged name s)"
    have eq': "[(n1, logged n1 api1), (n2, logged n2 api2), (n3, logged n3 direct),
                (n4, logged n4 scrape)] = map ?wrap pre @ (n, logged n strategy) # map ?wrap post"
    proof -
      have "map ?wrap [(n1, api1), (n2, api2), (n3, direct), (n4, scrape)]
              = map ?wrap (pre @ (n, strategy) # post)"
        by (simp only: eq)
      then show ?thesis by simp
    qed
    have m: "map snd (map ?wrap pre) = map (\<lambda>(name, s). logged name s) pre"
      by (induction pre) auto
    have pre': "go_on_through (map snd (map ?wrap pre)) url (w, []) = Some (w1, map fst pre)"
      using go_on_through_logged [OF pre, of "[]"] by (simp only: m) simp
    have run': "logged n strategy url (w1, map fst pre) = (Inr result, (w2, map fst pre @ [n]))"
      using run by (rule logged_outcome)
    show "getTeraboxData_with (logged n1 api1) (logged n2 api2) (logged n3 direct)
            (logged n4 scrape) url (w, []) = (result, (w2, map fst pre @ [n]))"
      using eq' pre' run' flag by (rule with_first_success)
  qed
  have first: "getTeraboxData_first_with (map snd named) url w = (result, w2)
      \<and> getTeraboxData_first_with (map (\<lambda>(name, s). logged name s) named) url (w, [])
            = (result, (w2, map fst pre @ [n]))"
    if eq: "named = pre @ (n, strategy) # post"
      and pre: "go_on_through (map snd pre) url w = Some w1"
      and run: "strategy url w1 = (Inr result, w2)"
      and flag: "truthy (get_prop result ''success'')"
  proof
    show "getTeraboxData_first_with (map snd named) url w = (result, w2)"
      using loop_first_success [of "map snd pre" url w w1 strategy result w2, OF pre run flag]
      by (simp add: getTeraboxData_first_with_def eq)
    have pre': "go_on_through (map (\<lambda>(name, s). logged name s) pre) url (w, [])
                  = Some (w1, map fst pre)"
      using go_on_through_logged [OF pre, of "[]"] by simp
    have run': "logged n strategy url (w1, map fst pre) = (Inr result, (w2, map fst pre @ [n]))"
      using run by (rule logged_outcome)
    show "getTeraboxData_first_with (map (\<lambda>(name, s). logged name s) named) url (w, [])
            = (result, (w2, map fst pre @ [n]))"
      using loop_first_success [of "map (\<lambda>(name, s). logged name s) pre" url "(w, [])"
          "(w1, map fst pre)" "logged n strategy" result "(w2, map fst pre @ [n])",
          OF pre' run' flag]
      by (simp add: getTeraboxData_first_with_def eq)
  qed
  have a: "[(n1, api1), (n2, api2), (n3, direct), (n4, scrape)] = pre @ (n, strategy) # post
      \<and> go_on_through (map snd pre) url w = Some w1
      \<and> strategy url w1 = (Inr result, w2) \<and> truthy (get_prop result ''success'')
    \<longrightarrow> getTeraboxData_with api1 api2 direct scrape url w = (result, w2)
      \<and> getTeraboxData_with (logged n1 api1) (logged n2 api2) (logged n3 direct)
            (logged n4 scrape) url (w, []) = (result, (w2, map fst pre @ [n]))"
    using second by blast
  have b: "named = pre @ (n, strategy) # post
      \<and> go_on_through (map snd pre) url w = Some w1
      \<and> strategy url w1 = (Inr result, w2) \<and> truthy (get_prop result ''success'')
    \<longrightarrow> getTeraboxData_first_with (map snd named) url w = (result, w2)
      \<and> getTeraboxData_first_with (map (\<lambda>(name, s). logged name s) named) url (w, [])
            = (result, (w2, map fst pre @ [n]))"
    using first by blast
  have s1: "tryNepCoderApi http url w = (Inr result, w2)
      \<longrightarrow> get_prop result ''source'' = JStr ''nepcoderdevs''"
    using tryNepCoderApi_result [of http url w result w2] by blast
  have s2: "tryUdayApi http url w = (Inr result, w2)
      \<longrightarrow> get_prop result ''source'' = JStr ''udayscripts''"
    using tryUdayApi_result [of http url w result w2] by blast
  have s3: "tryDirectApi http url w = (Inr result, w2)
      \<longrightarrow> get_prop result ''source'' = JStr ''direct''"
    using tryDirectApi_result [of http url w result w2] by blast
  have s4: "tryPageScrape http JSON_parse url w = (Inr result, w2)
      \<longrightarrow> get_prop result ''source'' = JStr ''scrape''"
    using tryPageScrape_result [of http JSON_parse url w result w2] by blast
  have f1: "tryApi1 http url w = (Inr result, w2) \<longrightarrow> get_prop result ''source'' = JStr ''api1''"
    using tryApi1_result [of http url w result w2] by blast
  have f2: "tryApi2 http url w = (Inr result, w2) \<longrightarrow> get_prop result ''source'' = JStr ''api2''"
    using tryApi2_result [of http url w result w2] by blast
  have f3: "tryApi3 http url w = (Inr result, w2) \<longrightarrow> get_prop result ''source'' = JStr ''api3''"
    using tryApi3_result [of http url w result w2] by blast
  have f4: "tryApi4 http url w = (Inr result, w2) \<longrightarrow> get_prop result ''source'' = JStr ''direct''"
    using tryApi4_result [of http url w result w2] by blast
  have f5: "tryDirectScrape http JSON_parse url w = (Inr result, w2)
      \<longrightarrow> get_prop result ''source'' = JStr ''scrape''"
    using tryDirectScrape_result [of http JSON_parse url w result w2] by blast
  show ?thesis
    by (intro conjI a b s1 s2 s3 s4 f1 f2 f3 f4 f5)
qed

theorem first_success_wins_witness:
  "getTeraboxData_with (logged ''1'' (raises ''down'')) (logged ''2'' (returns (JObj [(''success'', JBool True), (''source'', JStr ''two'')])))
       (logged ''3'' (raises ''never'')) (logged ''4'' (raises ''never'')) ''u'' ((), [])
     = (JObj [(''success'', JBool True), (''source'', JStr ''two'')], ((), [''1'', ''2'']))
   \<and> getTeraboxData_first_with
       (map (\<lambda>(name, s). logged name s)
          [(''1'', raises ''down''),
           (''2'', returns (JObj [(''success'', JBool True), (''source'', JStr ''two'')])),
           (''3'', raises ''never''), (''4'', raises ''never''), (''5'', raises ''never'')])
       ''u'' ((), [])
     = (JObj [(''success'', JBool True), (''source'', JStr ''two'')], ((), [''1'', ''2'']))"
proof -
  let ?r = "JObj [(''success'', JBool True), (''source'', JStr ''two'')]"
  let ?pre = "[(''1'', raises ''down'' :: unit strategy)]"
  have eq: "[(''1'', raises ''down''), (''2'', returns ?r), (''3'', raises ''never''),
             (''4'', raises ''never'')] = ?pre @ (''2'', returns ?r) # [(''3'', raises ''never''),
             (''4'', raises ''never'')]"
    by simp
  have eq1: "[(''1'', raises ''down''), (''2'', returns ?r), (''3'', raises ''never''),
             (''4'', raises ''never''), (''5'', raises ''never'')]
          = ?pre @ (''2'', returns ?r) # [(''3'', raises ''never''),
             (''4'', raises ''never''), (''5'', raises ''never'')]"
    by simp
  have pre: "go_on_through (map snd ?pre) ''u'' () = Some ()"
    by (simp add: raises_def go_on_def)
  have run: "returns ?r ''u'' () = (Inr ?r, ())"
    by (simp add: returns_def)
  have flag: "truthy (get_prop ?r ''success'')" by simp
  note T = first_success_wins [of "''1''" "raises ''down''" "''2''" "returns ?r" "''3''"
      "raises ''never''" "''4''" "raises ''never''" ?pre "''2''" "returns ?r"
      "[(''3'', raises ''never''), (''4'', raises ''never'')]" "''u''" "()" "()" ?r "()"
      "[(''1'', raises ''down''), (''2'', returns ?r), (''3'', raises ''never''),
        (''4'', raises ''never''), (''5'', raises ''never'')]"]
  have 1: "getTeraboxData_with (logged ''1'' (raises ''down'')) (logged ''2'' (returns ?r))
       (logged ''3'' (raises ''never'')) (logged ''4'' (raises ''never'')) ''u'' ((), [])
     = (?r, ((), map fst ?pre @ [''2'']))"
    by (rule T [THEN conjunct1, THEN mp, THEN conjunct2]) (intro conjI eq pre run flag)
  note U = first_success_wins [of _ _ _ _ _ _ _ _ ?pre "''2''" "returns ?r"
      "[(''3'', raises ''never''), (''4'', raises ''never''), (''5'', raises ''never'')]"
      "''u''" "()" "()" ?r "()"
      "[(''1'', raises ''down''), (''2'', returns ?r), (''3'', raises ''never''),
        (''4'', raises ''never''), (''5'', raises ''never'')]"]
  have 2: "getTeraboxData_first_with
       (map (\<lambda>(name, s). logged name s)
          [(''1'', raises ''down''), (''2'', returns ?r),
           (''3'', raises ''never''), (''4'', raises ''never''), (''5'', raises ''never'')])
       ''u'' ((), [])
     = (?r, ((), map fst ?pre @ [''2'']))"
    by (rule U [THEN conjunct2, THEN conjunct1, THEN mp, THEN conjunct2])
      (intro conjI eq1 pre run flag)
  show ?thesis using 1 2 by simp
qed

end
